theory Spec2Isabelle
  imports Complex_Main
begin

section \<open>Arrays, exceptions and the file system\<close>

text \<open>
  A float64 is a finite number, an infinity or NaN. An operation on finite numbers gives
  the exact result, or an infinity where round-to-nearest overflows, that is from
  \<open>2 ^ 1024 - 2 ^ 970\<close> on; the rounding of a finite result to 53 bits is left out, and so
  is the sign of a zero: a quotient by zero takes its sign from the numerator, as it does
  for the zero \<open>x - x\<close>. Every comparison with NaN is false.
\<close>

datatype float64 = Finite real | PInf | NInf | NaN

definition overflow_threshold :: real where
  "overflow_threshold = 2 ^ 1024 - 2 ^ 970"

definition of_real64 :: "real \<Rightarrow> float64" where
  "of_real64 x =
     (if overflow_threshold \<le> x then PInf
      else if x \<le> - overflow_threshold then NInf
      else Finite x)"

definition signed_inf :: "real \<Rightarrow> float64" where
  "signed_inf s = (if s = 0 then NaN else if 0 < s then PInf else NInf)"

fun fneg :: "float64 \<Rightarrow> float64" where
  "fneg (Finite x) = Finite (- x)"
| "fneg PInf = NInf"
| "fneg NInf = PInf"
| "fneg NaN = NaN"

fun fadd :: "float64 \<Rightarrow> float64 \<Rightarrow> float64" where
  "fadd NaN b = NaN"
| "fadd a NaN = NaN"
| "fadd PInf NInf = NaN"
| "fadd NInf PInf = NaN"
| "fadd PInf b = PInf"
| "fadd a PInf = PInf"
| "fadd NInf b = NInf"
| "fadd a NInf = NInf"
| "fadd (Finite x) (Finite y) = of_real64 (x + y)"

definition fsub :: "float64 \<Rightarrow> float64 \<Rightarrow> float64" where
  "fsub a b = fadd a (fneg b)"

fun fmul :: "float64 \<Rightarrow> float64 \<Rightarrow> float64" where
  "fmul NaN b = NaN"
| "fmul a NaN = NaN"
| "fmul (Finite x) (Finite y) = of_real64 (x * y)"
| "fmul (Finite x) PInf = signed_inf x"
| "fmul (Finite x) NInf = signed_inf (- x)"
| "fmul PInf (Finite y) = signed_inf y"
| "fmul NInf (Finite y) = signed_inf (- y)"
| "fmul PInf PInf = PInf"
| "fmul PInf NInf = NInf"
| "fmul NInf PInf = NInf"
| "fmul NInf NInf = PInf"

fun fdiv :: "float64 \<Rightarrow> float64 \<Rightarrow> float64" where
  "fdiv NaN b = NaN"
| "fdiv a NaN = NaN"
| "fdiv (Finite x) (Finite y) = (if y = 0 then signed_inf x else of_real64 (x / y))"
| "fdiv (Finite x) PInf = Finite 0"
| "fdiv (Finite x) NInf = Finite 0"
| "fdiv PInf (Finite y) = (if 0 \<le> y then PInf else NInf)"
| "fdiv NInf (Finite y) = (if 0 \<le> y then NInf else PInf)"
| "fdiv PInf PInf = NaN"
| "fdiv PInf NInf = NaN"
| "fdiv NInf PInf = NaN"
| "fdiv NInf NInf = NaN"

fun flt :: "float64 \<Rightarrow> float64 \<Rightarrow> bool" where
  "flt NaN b = False"
| "flt a NaN = False"
| "flt (Finite x) (Finite y) = (x < y)"
| "flt (Finite x) PInf = True"
| "flt (Finite x) NInf = False"
| "flt PInf b = False"
| "flt NInf NInf = False"
| "flt NInf b = True"

definition fle :: "float64 \<Rightarrow> float64 \<Rightarrow> bool" where
  "fle a b = (a \<noteq> NaN \<and> b \<noteq> NaN \<and> \<not> flt b a)"

text \<open>\<open>np.maximum\<close> and \<open>np.minimum\<close> give NaN when either argument is NaN.\<close>

definition fmax :: "float64 \<Rightarrow> float64 \<Rightarrow> float64" where
  "fmax a b = (if a = NaN \<or> b = NaN then NaN else if flt a b then b else a)"

definition fmin :: "float64 \<Rightarrow> float64 \<Rightarrow> float64" where
  "fmin a b = (if a = NaN \<or> b = NaN then NaN else if flt b a then b else a)"

text \<open>
  A numpy array is modelled as the list of its elements (a frame is read in row-major
  order).
\<close>

type_synonym array = "float64 list"

text \<open>A Sample Descriptor: a tuple of a path and a second path or \<open>None\<close>.\<close>

type_synonym descriptor = "string \<times> string option"

datatype exn =
    StopIteration
  | FileNotFoundError
  | FileExistsError
  | OSError
  | ValueError
  | KeyError
  | IndexError
  | TypeError
  | MemoryError
  | UnpicklingError

datatype file_content =
    Npy array
  | Csv "(real \<times> float64) list"
  | Pickle "descriptor list"

text \<open>
  The world outside the program, keyed by the path strings the program passes:
  \<open>files\<close> holds the regular files (\<open>Csv\<close> rows are the columns \<open>wavelengths\<close>, a finite
  number, and \<open>Intensity\<close>), \<open>dirs\<close> the directories, \<open>listing\<close> what \<open>os.listdir\<close>
  returns, \<open>parent_exists\<close> whether the directory that is to hold a new directory
  exists, \<open>mkdir_ok\<close> whether the operating system then lets it be created,
  \<open>can_allocate\<close> whether an array of that many elements fits in memory, \<open>shuffled\<close>
  the outcome of \<open>np.random.shuffle\<close>, and \<open>read_log\<close> the paths handed to \<open>np.load\<close>
  and \<open>pd.read_csv\<close> so far.
\<close>

record world =
  files :: "string \<rightharpoonup> file_content"
  dirs :: "string set"
  listing :: "string \<rightharpoonup> string list"
  parent_exists :: "string \<Rightarrow> bool"
  mkdir_ok :: "string \<Rightarrow> bool"
  can_allocate :: "nat \<Rightarrow> bool"
  shuffled :: "nat list \<Rightarrow> nat list"
  read_log :: "string list"

type_synonym 'a io = "world \<Rightarrow> (exn + 'a) \<times> world"

definition EPSILON :: float64 where
  "EPSILON = Finite (1 / 10 ^ 8)"

definition default_int_time :: int where
  "default_int_time = 1400"

definition default_lamb_range :: "int \<times> int" where
  "default_lamb_range = (450, 690)"

subsection \<open>Paths and names\<close>

definition os_path_join :: "string \<Rightarrow> string \<Rightarrow> string" where
  "os_path_join a b =
     (if b \<noteq> [] \<and> hd b = CHR ''/'' then b
      else if a = [] \<or> last a = CHR ''/'' then a @ b
      else a @ ''/'' @ b)"

definition startswith :: "string \<Rightarrow> string \<Rightarrow> bool" where
  "startswith f p = (take (length p) f = p)"

definition digit_char :: "nat \<Rightarrow> char" where
  "digit_char d = char_of (48 + d)"

fun digits :: "nat \<Rightarrow> string" where
  "digits n = (if n < 10 then [digit_char n] else digits (n div 10) @ [digit_char (n mod 10)])"

declare digits.simps [simp del]

definition str_int :: "int \<Rightarrow> string" where
  "str_int k = (if k < 0 then CHR ''-'' # digits (nat (- k)) else digits (nat k))"

definition os_path_exists :: "world \<Rightarrow> string \<Rightarrow> bool" where
  "os_path_exists w p = (files w p \<noteq> None \<or> p \<in> dirs w)"

text \<open>
  \<open>os.mkdir\<close>: \<open>FileExistsError\<close> for a path that exists, \<open>FileNotFoundError\<close> for a
  missing parent, \<open>PermissionError\<close> and the like, rendered as \<open>OSError\<close>, otherwise.
\<close>

definition os_mkdir :: "string \<Rightarrow> unit io" where
  "os_mkdir p w =
     (if os_path_exists w p then (Inl FileExistsError, w)
      else if \<not> parent_exists w p then (Inl FileNotFoundError, w)
      else if \<not> mkdir_ok w p then (Inl OSError, w)
      else (Inr (), w\<lparr>dirs := insert p (dirs w)\<rparr>))"

definition os_listdir :: "string \<Rightarrow> string list io" where
  "os_listdir p w =
     (case listing w p of None \<Rightarrow> (Inl FileNotFoundError, w) | Some fs \<Rightarrow> (Inr fs, w))"

definition logged :: "string \<Rightarrow> world \<Rightarrow> world" where
  "logged p w = w\<lparr>read_log := read_log w @ [p]\<rparr>"

definition np_load :: "string \<Rightarrow> array io" where
  "np_load p w =
     (case files w p of
        None \<Rightarrow> (Inl FileNotFoundError, logged p w)
      | Some (Npy a) \<Rightarrow> (Inr a, logged p w)
      | Some _ \<Rightarrow> (Inl ValueError, logged p w))"

definition pd_read_csv :: "string \<Rightarrow> (real \<times> float64) list io" where
  "pd_read_csv p w =
     (case files w p of
        None \<Rightarrow> (Inl FileNotFoundError, logged p w)
      | Some (Csv rows) \<Rightarrow> (Inr rows, logged p w)
      | Some _ \<Rightarrow> (Inl ValueError, logged p w))"

text \<open>
  \<open>open(p, "rb")\<close> followed by \<open>pickle.load\<close>; the caller has checked
  \<open>os.path.exists\<close>, which also holds of a directory.
\<close>

definition pickle_load :: "string \<Rightarrow> descriptor list io" where
  "pickle_load p w =
     (case files w p of
        None \<Rightarrow> (Inl (if p \<in> dirs w then OSError else FileNotFoundError), w)
      | Some (Pickle l) \<Rightarrow> (Inr l, w)
      | Some _ \<Rightarrow> (Inl UnpicklingError, w))"

text \<open>
  \<open>open(os.path.join(d, name), "wb")\<close> followed by \<open>pickle.dump\<close>: \<open>d\<close> has to be a
  directory (\<open>NotADirectoryError\<close> and \<open>IsADirectoryError\<close> are rendered as \<open>OSError\<close>)
  and the target must not be one.
\<close>

definition pickle_dump :: "descriptor list \<Rightarrow> string \<Rightarrow> string \<Rightarrow> unit io" where
  "pickle_dump l d name w =
     (let p = os_path_join d name in
      if d \<notin> dirs w then (Inl (if files w d = None then FileNotFoundError else OSError), w)
      else if p \<in> dirs w then (Inl OSError, w)
      else (Inr (), w\<lparr>files := (files w)(p \<mapsto> Pickle l)\<rparr>))"

subsection \<open>numpy on arrays\<close>

text \<open>\<open>np.clip(x, a_min, a_max)\<close> is \<open>minimum(a_max, maximum(x, a_min))\<close>; a bound \<open>None\<close> is absent.\<close>

definition np_clip :: "float64 option \<Rightarrow> float64 option \<Rightarrow> float64 \<Rightarrow> float64" where
  "np_clip a_min a_max x =
     (let y = (case a_min of None \<Rightarrow> x | Some lo \<Rightarrow> fmax x lo)
      in case a_max of None \<Rightarrow> y | Some hi \<Rightarrow> fmin hi y)"

text \<open>
  An elementwise binary operation with numpy's broadcasting of one-dimensional arrays:
  equal lengths pair up, a length-one array is stretched, anything else raises.
\<close>

definition broadcast ::
  "(float64 \<Rightarrow> float64 \<Rightarrow> float64) \<Rightarrow> array \<Rightarrow> array \<Rightarrow> exn + array" where
  "broadcast f xs ys =
     (if length xs = length ys then Inr (map2 f xs ys)
      else if length xs = 1 then Inr (map (f (hd xs)) ys)
      else if length ys = 1 then Inr (map (\<lambda>x. f x (hd ys)) xs)
      else Inl ValueError)"

text \<open>\<open>np.round(x, 0)\<close> rounds half to even.\<close>

definition np_round :: "real \<Rightarrow> real" where
  "np_round x =
     (let f = \<lfloor>x\<rfloor>; d = x - of_int f
      in of_int (if d < 1 / 2 then f else if 1 / 2 < d then f + 1
                 else if even f then f else f + 1))"

text \<open>
  \<open>np.mean\<close>: the sum of the elements over their number. The mean of an empty array is
  \<open>0 / 0\<close>, which is NaN, and so is the mean of an array that holds NaN. The elements
  are added in their order; the program takes means of values that are not negative,
  where the order makes no difference to an overflow.
\<close>

definition np_mean :: "array \<Rightarrow> float64" where
  "np_mean s = fdiv (fold (\<lambda>x acc. fadd acc x) s (Finite 0)) (Finite (real (length s)))"

text \<open>\<open>np.mean(s) < t\<close>\<close>

definition mean_below :: "array \<Rightarrow> float64 \<Rightarrow> bool" where
  "mean_below s t = flt (np_mean s) t"

text \<open>
  \<open>np.arange(start, stop)\<close> on Python integers, with elements of eight bytes on a
  64-bit machine: \<open>ValueError\<close> (maximum allowed size exceeded, array is too big) for an
  array of \<open>2 ^ 63\<close> bytes or more, \<open>MemoryError\<close> for a smaller array that cannot be
  allocated.
\<close>

definition np_arange :: "int \<Rightarrow> int \<Rightarrow> int list io" where
  "np_arange start stop w =
     (if 2 ^ 60 \<le> stop - start then (Inl ValueError, w)
      else if \<not> can_allocate w (nat (stop - start)) then (Inl MemoryError, w)
      else (Inr [start..stop - 1], w))"

section \<open>utils.py\<close>

definition read_frame :: "string \<Rightarrow> int \<Rightarrow> array io" where
  "read_frame folder int_time w =
     (case np_load (os_path_join folder (str_int int_time @ ''_frame.npy'')) w of
        (Inl e, w') \<Rightarrow> (Inl e, w')
      | (Inr frame, w') \<Rightarrow> (Inr (map (np_clip (Some EPSILON) None) frame), w'))"

text \<open>
  \<open>groupby("wavelengths").mean()\<close>: one row per distinct index value, in ascending
  order of the index, holding the mean of the values of the group that are not NaN, or
  NaN when there is none.
\<close>

definition group_mean :: "array \<Rightarrow> float64" where
  "group_mean vs =
     (let present = filter (\<lambda>v. v \<noteq> NaN) vs
      in if present = [] then NaN else np_mean present)"

definition groupby_mean :: "(real \<times> float64) list \<Rightarrow> (real \<times> float64) list" where
  "groupby_mean rows =
     map (\<lambda>k. (k, group_mean (map snd (filter (\<lambda>r. fst r = k) rows))))
         (sort (remdups (map fst rows)))"

text \<open>
  A bound of a label slice, as \<open>Index.get_slice_bound\<close> finds it. A label that occurs in
  the index gives the position of its first occurrence on the left and the position after
  its last occurrence on the right, provided its occurrences are next to each other;
  otherwise \<open>KeyError\<close>. A label that does not occur is searched for in a monotonic
  index and gives \<open>KeyError\<close> in any other.
\<close>

definition get_slice_bound :: "real list \<Rightarrow> real \<Rightarrow> bool \<Rightarrow> exn + nat" where
  "get_slice_bound idx label left =
     (let first = length (takeWhile (\<lambda>x. x \<noteq> label) idx);
          run = length (takeWhile (\<lambda>x. x = label) (dropWhile (\<lambda>x. x \<noteq> label) idx));
          occurrences = length (filter (\<lambda>x. x = label) idx)
      in if 0 < occurrences then
           (if run = occurrences then Inr (if left then first else first + occurrences)
            else Inl KeyError)
         else if sorted idx then Inr (length (filter (\<lambda>x. x < label) idx))
         else if sorted (rev idx) then Inr (length (filter (\<lambda>x. label < x) idx))
         else Inl KeyError)"

text \<open>
  \<open>.loc[lo : hi]\<close> slices by label, both ends included: the rows from the left bound of
  \<open>lo\<close> up to the right bound of \<open>hi\<close>. The index of a table without rows has no numeric
  type, and slicing it with numbers raises \<open>TypeError\<close>.
\<close>

definition loc_slice ::
  "real \<Rightarrow> real \<Rightarrow> (real \<times> float64) list \<Rightarrow> exn + (real \<times> float64) list" where
  "loc_slice lo hi rows =
     (if rows = [] then Inl TypeError
      else
        (case get_slice_bound (map fst rows) lo True of
           Inl e \<Rightarrow> Inl e
         | Inr start \<Rightarrow>
             (case get_slice_bound (map fst rows) hi False of
                Inl e \<Rightarrow> Inl e
              | Inr stop \<Rightarrow> Inr (take (stop - start) (drop start rows)))))"

text \<open>\<open>DataFrame.clip(lower=lo)\<close> raises what is below \<open>lo\<close> and keeps NaN.\<close>

definition clip_lower :: "float64 \<Rightarrow> float64 \<Rightarrow> float64" where
  "clip_lower lo v = (if flt v lo then lo else v)"

definition read_spectrum :: "string \<Rightarrow> int \<times> int \<Rightarrow> array io" where
  "read_spectrum folder lamb_range w =
     (case pd_read_csv (os_path_join folder ''spectrum.csv'') w of
        (Inl e, w') \<Rightarrow> (Inl e, w')
      | (Inr rows, w') \<Rightarrow>
          (let spectrum = map (\<lambda>r. (fst r, clip_lower EPSILON (snd r))) rows in
           case loc_slice (of_int (fst lamb_range)) (of_int (snd lamb_range - 1)) spectrum of
             Inl e \<Rightarrow> (Inl e, w')
           | Inr sliced \<Rightarrow>
               (let rounded = map (\<lambda>r. (np_round (fst r), snd r)) sliced
                in (Inr (map snd (groupby_mean rounded)), w'))))"

text \<open>
  \<open>read_measurement\<close> takes \<open>lamb_range\<close> and calls \<open>read_spectrum(folder)\<close> without
  it, so the spectrum is read at the default range of \<open>read_spectrum\<close>.
\<close>

definition read_measurement :: "string \<Rightarrow> int \<Rightarrow> int \<times> int \<Rightarrow> (array \<times> array) io" where
  "read_measurement folder int_time lamb_range w =
     (case read_frame folder int_time w of
        (Inl e, w') \<Rightarrow> (Inl e, w')
      | (Inr frame, w') \<Rightarrow>
          (case read_spectrum folder default_lamb_range w' of
             (Inl e, w'') \<Rightarrow> (Inl e, w'')
           | (Inr spectrum, w'') \<Rightarrow> (Inr (frame, spectrum), w'')))"

definition normalize_array :: "array \<Rightarrow> array \<Rightarrow> array \<Rightarrow> exn + array" where
  "normalize_array array dark white =
     (case broadcast fsub array dark of
        Inl e \<Rightarrow> Inl e
      | Inr num \<Rightarrow>
          (case broadcast fsub white dark of
             Inl e \<Rightarrow> Inl e
           | Inr den \<Rightarrow>
               (case broadcast fdiv num den of
                  Inl e \<Rightarrow> Inl e
                | Inr q \<Rightarrow> Inr (map (np_clip (Some EPSILON) (Some (Finite 1))) q))))"

section \<open>dataset.py\<close>

text \<open>
  The object of class \<open>SPECTRE\<close>. The attribute \<open>_ids\<close> is the field \<open>ids\<close> and the
  attribute \<open>i\<close> the field \<open>self_i\<close>.
\<close>

record spectre =
  int_time :: int
  lamb_range :: "int \<times> int"
  wavelengths :: "int list"
  root_dir :: string
  cache_dir :: "string option"
  cache :: bool
  clean_threshold :: float64
  augment :: bool
  shuffle :: bool
  ids :: "nat list option"
  self_i :: nat
  dark_meas :: "array \<times> array"
  white_meas :: "array \<times> array"
  meas_list :: "descriptor list"
  num_meas :: nat

text \<open>\<open>_read_reference\<close> calls \<open>read_measurement\<close> with the folder alone.\<close>

definition read_reference :: "spectre \<Rightarrow> ((array \<times> array) \<times> (array \<times> array)) io" where
  "read_reference self w =
     (case read_measurement (os_path_join (root_dir self) ''Dark'')
             default_int_time default_lamb_range w of
        (Inl e, w') \<Rightarrow> (Inl e, w')
      | (Inr dark, w') \<Rightarrow>
          (case read_measurement (os_path_join (root_dir self) ''White'')
                  default_int_time default_lamb_range w' of
             (Inl e, w'') \<Rightarrow> (Inl e, w'')
           | (Inr white, w'') \<Rightarrow> (Inr (dark, white), w'')))"

definition keep_entry :: "string \<Rightarrow> bool" where
  "keep_entry f = (\<not> startswith f ''.'' \<and> f \<notin> set [''Dark'', ''White''])"

text \<open>The two nested \<open>for\<close> statements of \<open>_scan_root\<close> append to \<open>multiplied_list\<close>.\<close>

definition multiply_loop :: "descriptor list \<Rightarrow> descriptor list \<Rightarrow> descriptor list" where
  "multiply_loop first_half second_half =
     fold (\<lambda>meas_a acc.
             fold (\<lambda>meas_b acc'. acc' @ [(fst meas_a, Some (fst meas_b))]) second_half acc)
          first_half []"

definition scan_root :: "spectre \<Rightarrow> descriptor list io" where
  "scan_root self w =
     (case os_listdir (root_dir self) w of
        (Inl e, w') \<Rightarrow> (Inl e, w')
      | (Inr fs, w') \<Rightarrow>
          (let raw_meas_list =
                 map (\<lambda>f. (os_path_join (root_dir self) f, None)) (filter keep_entry fs)
           in if \<not> augment self then (Inr raw_meas_list, w')
              else
                (let multiplied_list =
                       multiply_loop (take (length raw_meas_list div 2) raw_meas_list)
                                     (drop (length raw_meas_list div 2) raw_meas_list);
                     squared_list = map (\<lambda>meas. (fst meas, Some (fst meas))) raw_meas_list
                 in (Inr (raw_meas_list @ multiplied_list @ squared_list), w'))))"

text \<open>
  The body of the cleaning loop of \<open>_init_dataset\<close> up to the product: the spectrum of
  one descriptor, normalized, or the product of the two normalized spectra.
\<close>

definition combined_spectrum :: "spectre \<Rightarrow> descriptor \<Rightarrow> array io" where
  "combined_spectrum self meas w =
     (case read_spectrum (fst meas) default_lamb_range w of
        (Inl e, w') \<Rightarrow> (Inl e, w')
      | (Inr raw_a, w') \<Rightarrow>
          (case normalize_array raw_a (snd (dark_meas self)) (snd (white_meas self)) of
             Inl e \<Rightarrow> (Inl e, w')
           | Inr spectrum_a \<Rightarrow>
               (case snd meas of
                  None \<Rightarrow> (Inr spectrum_a, w')
                | Some path_b \<Rightarrow>
                    (case read_spectrum path_b default_lamb_range w' of
                       (Inl e, w'') \<Rightarrow> (Inl e, w'')
                     | (Inr raw_b, w'') \<Rightarrow>
                         (case normalize_array raw_b (snd (dark_meas self))
                                 (snd (white_meas self)) of
                            Inl e \<Rightarrow> (Inl e, w'')
                          | Inr spectrum_b \<Rightarrow>
                              (broadcast fmul spectrum_a spectrum_b, w''))))))"

text \<open>
  \<open>for meas in self.meas_list\<close>, with \<open>self.meas_list.remove(meas)\<close> in its body. The
  iterator of a Python list is a position \<open>k\<close> into the list it walks: each round
  compares \<open>k\<close> with the current length, takes the element at \<open>k\<close> and moves on to
  \<open>k + 1\<close>, whatever the body did to the list. \<open>remove\<close> deletes the first element
  equal to its argument.
\<close>

function clean_loop :: "spectre \<Rightarrow> nat \<Rightarrow> descriptor list \<Rightarrow> descriptor list io" where
  "clean_loop self k ml w =
     (if k < length ml then
        (case combined_spectrum self (ml ! k) w of
           (Inl e, w') \<Rightarrow> (Inl e, w')
         | (Inr spectrum, w') \<Rightarrow>
             clean_loop self (Suc k)
               (if mean_below spectrum (clean_threshold self) then remove1 (ml ! k) ml else ml)
               w')
      else (Inr ml, w))"
  by pat_completeness auto
termination
  by (relation "measure (\<lambda>(self, k, ml, w). length ml - k)") (auto simp: length_remove1)

declare clean_loop.simps [simp del]

text \<open>\<open>try: os.mkdir(d) except FileExistsError: pass\<close>\<close>

definition try_mkdir :: "string \<Rightarrow> unit io" where
  "try_mkdir d w =
     (case os_mkdir d w of
        (Inl e, w') \<Rightarrow> if e = FileExistsError then (Inr (), w') else (Inl e, w')
      | (Inr u, w') \<Rightarrow> (Inr u, w'))"

definition init_dataset :: "spectre \<Rightarrow> spectre io" where
  "init_dataset self0 w =
     (let d = (case cache_dir self0 of None \<Rightarrow> ''.spectre_cache/'' | Some c \<Rightarrow> c);
          self = self0\<lparr>cache_dir := Some d\<rparr>;
          p = os_path_join d ''dataset_cache.pickle'';
          r = (if os_path_exists w p \<and> cache self then pickle_load p w
               else
                 (case try_mkdir d w of
                    (Inl e, w1) \<Rightarrow> (Inl e, w1)
                  | (Inr _, w1) \<Rightarrow>
                      (case clean_loop self 0 (meas_list self) w1 of
                         (Inl e, w2) \<Rightarrow> (Inl e, w2)
                       | (Inr ml, w2) \<Rightarrow>
                           if cache self then
                             (case pickle_dump ml d ''dataset_cache.pickle'' w2 of
                                (Inl e, w3) \<Rightarrow> (Inl e, w3)
                              | (Inr _, w3) \<Rightarrow> (Inr ml, w3))
                           else (Inr ml, w2))))
      in case r of
           (Inl e, w') \<Rightarrow> (Inl e, w')
         | (Inr ml, w') \<Rightarrow>
             (let arange = [0..<length ml]
              in (Inr (self\<lparr>meas_list := ml,
                             ids := Some (if shuffle self then shuffled w' arange else arange)\<rparr>),
                  w')))"

text \<open>\<open>__len__\<close>: the first call initializes the dataset.\<close>

definition len :: "spectre \<Rightarrow> (nat \<times> spectre) io" where
  "len self w =
     (case (if ids self = None then init_dataset self w else (Inr self, w)) of
        (Inl e, w') \<Rightarrow> (Inl e, w')
      | (Inr self', w') \<Rightarrow>
          (case ids self' of
             None \<Rightarrow> (Inl TypeError, w')
           | Some p \<Rightarrow> (Inr (length p, self'), w')))"

definition normalize_measurement :: "spectre \<Rightarrow> array \<Rightarrow> array \<Rightarrow> exn + array \<times> array" where
  "normalize_measurement self frame spectrum =
     (case normalize_array frame (fst (dark_meas self)) (fst (white_meas self)) of
        Inl e \<Rightarrow> Inl e
      | Inr frame_norm \<Rightarrow>
          (case normalize_array spectrum (snd (dark_meas self)) (snd (white_meas self)) of
             Inl e \<Rightarrow> Inl e
           | Inr spectrum_norm \<Rightarrow> Inr (frame_norm, spectrum_norm)))"

definition read_meas_file_singular :: "spectre \<Rightarrow> string \<Rightarrow> (array \<times> array) io" where
  "read_meas_file_singular self path w =
     (case read_measurement path (int_time self) default_lamb_range w of
        (Inl e, w') \<Rightarrow> (Inl e, w')
      | (Inr (frame, spectrum), w') \<Rightarrow> (normalize_measurement self frame spectrum, w'))"

text \<open>\<open>_read_meas_file\<close> indexes \<open>self.meas_list\<close> with the index it is given.\<close>

definition read_meas_file :: "spectre \<Rightarrow> nat \<Rightarrow> (array \<times> array) io" where
  "read_meas_file self index w =
     (if index < length (meas_list self) then
        (let path_tuple = meas_list self ! index in
         case snd path_tuple of
           None \<Rightarrow> read_meas_file_singular self (fst path_tuple) w
         | Some path_b \<Rightarrow>
             (case read_meas_file_singular self (fst path_tuple) w of
                (Inl e, w') \<Rightarrow> (Inl e, w')
              | (Inr (frame_a, spectrum_a), w') \<Rightarrow>
                  (case read_meas_file_singular self path_b w' of
                     (Inl e, w'') \<Rightarrow> (Inl e, w'')
                   | (Inr (frame_b, spectrum_b), w'') \<Rightarrow>
                       (case broadcast fmul frame_a frame_b of
                          Inl e \<Rightarrow> (Inl e, w'')
                        | Inr frame \<Rightarrow>
                            (case broadcast fmul spectrum_a spectrum_b of
                               Inl e \<Rightarrow> (Inl e, w'')
                             | Inr spectrum \<Rightarrow> (Inr (frame, spectrum), w''))))))
      else (Inl IndexError, w))"

text \<open>
  \<open>send\<close>: the next item or \<open>StopIteration\<close>. The result is the value returned or
  the exception raised, the object and the world.
\<close>

definition send :: "spectre \<Rightarrow> world \<Rightarrow> (exn + array \<times> array) \<times> spectre \<times> world" where
  "send self w =
     (case len self w of
        (Inl e, w') \<Rightarrow> (Inl e, self, w')
      | (Inr (n, self'), w') \<Rightarrow>
          if self_i self' < n then
            (case read_meas_file self' (self_i self') w' of
               (Inl e, w'') \<Rightarrow> (Inl e, self', w'')
             | (Inr next_value, w'') \<Rightarrow>
                 (Inr next_value, self'\<lparr>self_i := self_i self' + 1\<rparr>, w''))
          else (Inl StopIteration, self', w'))"

text \<open>
  \<open>__init__\<close>, with the keyword arguments in the order of the source. The first thing
  that can raise is \<open>np.arange(*self.lamb_range)\<close>.
\<close>

definition SPECTRE_init ::
  "string \<Rightarrow> int \<Rightarrow> bool \<Rightarrow> string option \<Rightarrow> float64 \<Rightarrow> int \<times> int \<Rightarrow> bool \<Rightarrow> bool \<Rightarrow>
   spectre io" where
  "SPECTRE_init root_dir' int_time' shuffle' cache_dir' clean_threshold' lamb_range' cache'
       augment' w =
     (case np_arange (fst lamb_range') (snd lamb_range') w of
        (Inl e, w0) \<Rightarrow> (Inl e, w0)
      | (Inr wavelengths', w0) \<Rightarrow>
          (let self = \<lparr>int_time = int_time', lamb_range = lamb_range',
                       wavelengths = wavelengths',
                       root_dir = root_dir', cache_dir = cache_dir', cache = cache',
                       clean_threshold = clean_threshold', augment = augment',
                       shuffle = shuffle', ids = None, self_i = 0,
                       dark_meas = ([], []), white_meas = ([], []),
                       meas_list = [], num_meas = 0\<rparr>
           in case read_reference self w0 of
                (Inl e, w1) \<Rightarrow> (Inl e, w1)
              | (Inr (dark, white), w1) \<Rightarrow>
                  (case scan_root (self\<lparr>dark_meas := dark, white_meas := white\<rparr>) w1 of
                     (Inl e, w2) \<Rightarrow> (Inl e, w2)
                   | (Inr ml, w2) \<Rightarrow>
                       (case len (self\<lparr>dark_meas := dark, white_meas := white,
                                       meas_list := ml\<rparr>) w2 of
                          (Inl e, w3) \<Rightarrow> (Inl e, w3)
                        | (Inr (n, self'), w3) \<Rightarrow> (Inr (self'\<lparr>num_meas := n\<rparr>), w3)))))"

text \<open>A run of \<open>n\<close> calls of \<open>send\<close>, collecting what each call returned or raised.\<close>

fun sends :: "nat \<Rightarrow> spectre \<Rightarrow> world \<Rightarrow> (exn + array \<times> array) list \<times> spectre \<times> world" where
  "sends 0 self w = ([], self, w)"
| "sends (Suc n) self w =
     (case send self w of
        (r, self', w') \<Rightarrow>
          (case sends n self' w' of (rs, self'', w'') \<Rightarrow> (r # rs, self'', w'')))"

section \<open>Definitions in the words of the specification, and example data\<close>

text \<open>The clip of a value to the interval from \<open>lo\<close> to \<open>hi\<close>.\<close>

definition clip_interval :: "float64 \<Rightarrow> float64 \<Rightarrow> float64 \<Rightarrow> float64" where
  "clip_interval lo hi x = (if flt x lo then lo else if flt hi x then hi else x)"

text \<open>A value that is neither NaN nor an infinity, and an array of such values.\<close>

definition is_finite :: "float64 \<Rightarrow> bool" where
  "is_finite x = (case x of Finite r \<Rightarrow> True | PInf \<Rightarrow> False | NInf \<Rightarrow> False | NaN \<Rightarrow> False)"

definition fl :: "real list \<Rightarrow> array" where
  "fl xs = map Finite xs"

text \<open>Normalizing the normalized array a second time with the same references.\<close>

definition normalize_twice :: "array \<Rightarrow> array \<Rightarrow> array \<Rightarrow> exn + array" where
  "normalize_twice a dark white =
     (case normalize_array a dark white of
        Inl e \<Rightarrow> Inl e
      | Inr once \<Rightarrow> normalize_array once dark white)"

text \<open>
  The singular list, the cross list and the square list of the Root Scanner, as the
  specification describes them.
\<close>

definition cross_list :: "descriptor list \<Rightarrow> descriptor list" where
  "cross_list L =
     concat (map (\<lambda>a. map (\<lambda>b. (fst a, Some (fst b))) (drop (length L div 2) L))
                 (take (length L div 2) L))"

definition square_list :: "descriptor list \<Rightarrow> descriptor list" where
  "square_list L = map (\<lambda>m. (fst m, Some (fst m))) L"

definition singular_list :: "string \<Rightarrow> string list \<Rightarrow> descriptor list" where
  "singular_list dir fs = map (\<lambda>f. (os_path_join dir f, None)) (filter keep_entry fs)"

text \<open>
  An example root \<open>data\<close> with the references and two measurements \<open>A\<close> and \<open>B\<close>.
  The \<open>Dark\<close> folder holds frames for two integration times, and every spectrum has a
  row inside and a row outside the wavelength range from 600 to 700.
\<close>

definition ex_files :: "string \<rightharpoonup> file_content" where
  "ex_files =
     [''data/Dark/1400_frame.npy'' \<mapsto> Npy (fl [1, 1]),
      ''data/Dark/800_frame.npy'' \<mapsto> Npy (fl [2, 2]),
      ''data/Dark/spectrum.csv'' \<mapsto> Csv [(500, Finite 1), (650, Finite 1)],
      ''data/White/1400_frame.npy'' \<mapsto> Npy (fl [5, 5]),
      ''data/White/800_frame.npy'' \<mapsto> Npy (fl [4, 4]),
      ''data/White/spectrum.csv'' \<mapsto> Csv [(500, Finite 11), (650, Finite 11)],
      ''data/A/1400_frame.npy'' \<mapsto> Npy (fl [2, 3]),
      ''data/A/spectrum.csv'' \<mapsto> Csv [(500, Finite 2), (650, Finite 2)],
      ''data/B/1400_frame.npy'' \<mapsto> Npy (fl [3, 4]),
      ''data/B/spectrum.csv'' \<mapsto> Csv [(500, Finite 2), (650, Finite 2)]]"

definition ex_world :: world where
  "ex_world =
     \<lparr>files = ex_files, dirs = {''data''},
      listing = [''data'' \<mapsto> [''Dark'', ''A'', ''.git'', ''White'', ''B'']],
      parent_exists = (\<lambda>p. True), mkdir_ok = (\<lambda>p. True), can_allocate = (\<lambda>n. True),
      shuffled = rev, read_log = []\<rparr>"

text \<open>
  The same root without the frame of \<open>B\<close>, and the same root where the cache directory
  exists already and no directory can be made.
\<close>

definition ex_world_no_frame :: world where
  "ex_world_no_frame = ex_world\<lparr>files := ex_files(''data/B/1400_frame.npy'' := None)\<rparr>"


text \<open>
  The cache location that \<open>_init_dataset\<close> settles on, and the path of the cache record.
\<close>

definition cache_location :: "spectre \<Rightarrow> string" where
  "cache_location self = (case cache_dir self of None \<Rightarrow> ''.spectre_cache/'' | Some c \<Rightarrow> c)"

definition cache_record :: "spectre \<Rightarrow> string" where
  "cache_record self = os_path_join (cache_location self) ''dataset_cache.pickle''"



text \<open>The exceptions that reading and combining measurements raises.\<close>

definition read_failure :: "exn \<Rightarrow> bool" where
  "read_failure e =
     (e = FileNotFoundError \<or> e = ValueError \<or> e = KeyError \<or> e = TypeError \<or> e = IndexError)"

text \<open>Two worlds that differ at most in the log of reads.\<close>

definition only_logged :: "world \<Rightarrow> world \<Rightarrow> bool" where
  "only_logged w w' = (w' = w\<lparr>read_log := read_log w'\<rparr>)"

text \<open>
  The object on that root as \<open>__init__\<close> holds it before the index is finalized, and a
  world that holds a cache record and no measurement at all.
\<close>

definition ex_self :: spectre where
  "ex_self =
     \<lparr>int_time = 1400, lamb_range = (450, 690), wavelengths = [450..689],
      root_dir = ''data'', cache_dir = None, cache = True,
      clean_threshold = Finite (15 / 100),
      augment = False, shuffle = False, ids = None, self_i = 0,
      dark_meas = (fl [1, 1], fl [1, 1]), white_meas = (fl [5, 5], fl [11, 11]),
      meas_list = [(''data/A'', None), (''data/B'', None)], num_meas = 0\<rparr>"

definition ex_cached_world :: world where
  "ex_cached_world =
     \<lparr>files = [''.spectre_cache/dataset_cache.pickle'' \<mapsto> Pickle [(''data/B'', None)]],
      dirs = {''.spectre_cache/''}, listing = Map.empty,
      parent_exists = (\<lambda>p. False), mkdir_ok = (\<lambda>p. False), can_allocate = (\<lambda>n. True),
      shuffled = rev, read_log = []\<rparr>"

text \<open>The mean signal of a descriptor: the mean of its combined spectrum.\<close>

definition mean_signal :: "spectre \<Rightarrow> descriptor \<Rightarrow> world \<Rightarrow> float64 option" where
  "mean_signal self meas w =
     (case combined_spectrum self meas w of (Inl e, w') \<Rightarrow> None | (Inr s, w') \<Rightarrow> Some (np_mean s))"

text \<open>That object once finalized with nothing removed and no shuffling.\<close>

definition ex_final :: spectre where
  "ex_final = ex_self\<lparr>cache_dir := Some ''.spectre_cache/'', ids := Some [0, 1], num_meas := 2\<rparr>"

text \<open>
  Two objects that differ at most in the configured wavelength range and in the
  \<open>wavelengths\<close> computed from it.
\<close>

definition same_but_range :: "spectre \<Rightarrow> spectre \<Rightarrow> bool" where
  "same_but_range a b =
     (int_time a = int_time b \<and> root_dir a = root_dir b \<and> cache_dir a = cache_dir b \<and>
      cache a = cache b \<and> clean_threshold a = clean_threshold b \<and> augment a = augment b \<and>
      shuffle a = shuffle b \<and> ids a = ids b \<and> self_i a = self_i b \<and>
      dark_meas a = dark_meas b \<and> white_meas a = white_meas b \<and>
      meas_list a = meas_list b \<and> num_meas a = num_meas b)"

text \<open>
  What an observer of a dataset sees: constructing the object and calling \<open>send\<close> \<open>n\<close>
  times gives the filtered index, what each call returned or raised, and the world with
  its log of reads; or the exception that the constructor raised.
\<close>

definition observe ::
  "string \<Rightarrow> int \<Rightarrow> bool \<Rightarrow> string option \<Rightarrow> float64 \<Rightarrow> int \<times> int \<Rightarrow> bool \<Rightarrow> bool \<Rightarrow> nat \<Rightarrow>
   world \<Rightarrow> (exn + descriptor list \<times> (exn + array \<times> array) list) \<times> world" where
  "observe root_dir' int_time' shuffle' cache_dir' clean_threshold' lamb_range' cache' augment'
       n w =
     (case SPECTRE_init root_dir' int_time' shuffle' cache_dir' clean_threshold' lamb_range'
             cache' augment' w of
        (Inl e, w') \<Rightarrow> (Inl e, w')
      | (Inr self, w') \<Rightarrow>
          (case sends n self w' of
             (outs, self', w'') \<Rightarrow> (Inr (meas_list self, outs), w'')))"

text \<open>A configured wavelength range for which \<open>np.arange\<close> returns an array.\<close>

definition arange_succeeds :: "int \<times> int \<Rightarrow> world \<Rightarrow> bool" where
  "arange_succeeds r w =
     (case fst (np_arange (fst r) (snd r) w) of Inl e \<Rightarrow> False | Inr ws \<Rightarrow> True)"

section \<open>Evaluating the program on the example root\<close>

lemma overflow_threshold_large: "2 ^ 64 < overflow_threshold"
  by (simp add: overflow_threshold_def)

lemma of_real64_small: "\<bar>x\<bar> < 2 ^ 64 \<Longrightarrow> of_real64 x = Finite x"
  using overflow_threshold_large unfolding of_real64_def by (auto simp: abs_if split: if_splits)

text \<open>The definitions that evaluating the program on the example unfolds.\<close>

lemmas eval_defs = read_reference_def read_measurement_def read_frame_def read_spectrum_def
  np_load_def pd_read_csv_def logged_def os_path_join_def loc_slice_def get_slice_bound_def
  groupby_mean_def group_mean_def clip_lower_def
  np_round_def np_mean_def np_clip_def fmax_def fmin_def fsub_def signed_inf_def of_real64_small
  EPSILON_def default_int_time_def default_lamb_range_def fl_def
  ex_world_def ex_files_def
  scan_root_def os_listdir_def keep_entry_def startswith_def np_arange_def
  len_def init_dataset_def try_mkdir_def os_mkdir_def os_path_exists_def
  combined_spectrum_def normalize_array_def broadcast_def mean_below_def
  pickle_load_def pickle_dump_def Let_def
  read_meas_file_def read_meas_file_singular_def normalize_measurement_def send_def

lemma str_int_1400: "str_int 1400 = ''1400''" by code_simp
lemma str_int_800: "str_int 800 = ''800''" by code_simp

lemma ex_self_fields:
  "int_time ex_self = 1400" "root_dir ex_self = ''data''" "cache_dir ex_self = None"
  "cache ex_self = True" "clean_threshold ex_self = Finite (15 / 100)"
  "augment ex_self = False" "shuffle ex_self = False" "ids ex_self = None"
  "self_i ex_self = 0" "dark_meas ex_self = (fl [1, 1], fl [1, 1])"
  "white_meas ex_self = (fl [5, 5], fl [11, 11])"
  "meas_list ex_self = [(''data/A'', None), (''data/B'', None)]"
  by (simp_all add: ex_self_def)

section \<open>Normalization\<close>

lemma EPSILON_bounds: "flt (Finite 0) EPSILON" "fle EPSILON (Finite 1)" "EPSILON \<noteq> NaN"
  by (simp_all add: EPSILON_def fle_def)

lemma np_clip_interval:
  "np_clip (Some EPSILON) (Some (Finite 1)) x = clip_interval EPSILON (Finite 1) x"
  by (cases x) (simp_all add: np_clip_def clip_interval_def fmax_def fmin_def EPSILON_def)

lemma clip_interval_range:
  "x \<noteq> NaN \<Longrightarrow>
     fle EPSILON (clip_interval EPSILON (Finite 1) x) \<and>
     fle (clip_interval EPSILON (Finite 1) x) (Finite 1)"
  by (cases x) (simp_all add: clip_interval_def EPSILON_def fle_def)

lemma clip_interval_idem:
  "clip_interval EPSILON (Finite 1) (clip_interval EPSILON (Finite 1) x)
     = clip_interval EPSILON (Finite 1) x"
  by (cases x) (simp_all add: clip_interval_def EPSILON_def)

lemma clip_interval_identity_refs:
  "clip_interval EPSILON (Finite 1)
     (fdiv (fsub (clip_interval EPSILON (Finite 1) x) (Finite 0)) (fsub (Finite 1) (Finite 0)))
     = clip_interval EPSILON (Finite 1) x"
  by (cases x) (simp_all add: clip_interval_def EPSILON_def fsub_def of_real64_small)

lemma quotient_not_nan:
  assumes "a \<noteq> NaN" and "flt d wh"
    and "is_finite (fsub a d) \<or> is_finite (fsub wh d)"
  shows "fdiv (fsub a d) (fsub wh d) \<noteq> NaN"
  using assms
  by (cases a; cases d; cases wh)
    (auto simp: fsub_def of_real64_def is_finite_def signed_inf_def split: if_splits)

lemma broadcast_same_length:
  "length xs = length ys \<Longrightarrow> broadcast f xs ys = Inr (map2 f xs ys)"
  by (simp add: broadcast_def)

lemma normalize_array_same_length:
  assumes "length a = length dark" and "length white = length dark"
  shows "normalize_array a dark white =
           Inr (map (np_clip (Some EPSILON) (Some (Finite 1)))
                  (map2 fdiv (map2 fsub a dark) (map2 fsub white dark)))"
  using assms by (simp add: normalize_array_def broadcast_same_length)

lemma normalize_array_nth:
  assumes "length a = length dark" and "length white = length dark"
  shows "\<exists>out. normalize_array a dark white = Inr out \<and> length out = length dark \<and>
           (\<forall>k < length dark.
              out ! k = clip_interval EPSILON (Finite 1)
                          (fdiv (fsub (a ! k) (dark ! k)) (fsub (white ! k) (dark ! k))))"
  using assms
  by (simp add: normalize_array_same_length np_clip_interval)

text \<open>
  Claim C5, as stated, fails: NaN is an array element, and with \<open>dark = 0\<close> and
  \<open>white = 1\<close> it normalizes to NaN, which lies in no interval.
\<close>

theorem normalize_array_nan_counterexample:
  "flt (Finite 0) (Finite 1) \<and> normalize_array [NaN] [Finite 0] [Finite 1] = Inr [NaN]
   \<and> \<not> (fle EPSILON NaN \<and> fle NaN (Finite 1))"
  by (simp add: normalize_array_def broadcast_def np_clip_def fmax_def fmin_def fsub_def
      fle_def)

text \<open>
  Finite values whose differences both overflow fare the same: infinity over infinity is
  NaN.
\<close>

lemma normalize_array_overflow:
  "normalize_array [Finite (2 ^ 1023)] [Finite (- (2 ^ 1023))] [Finite (2 ^ 1023)] = Inr [NaN]"
  by (simp add: normalize_array_def broadcast_def np_clip_def fmax_def fmin_def fsub_def
      of_real64_def overflow_threshold_def)

text \<open>
  Claim C5, amended. Take arrays \<open>raw\<close>, \<open>dark\<close>, \<open>white\<close> of one shape with
  \<open>white > dark\<close> elementwise, which leaves no NaN in \<open>dark\<close> and \<open>white\<close>, with no NaN
  in \<open>raw\<close>, and with no element at which neither \<open>raw - dark\<close> nor \<open>white - dark\<close> is
  finite. Then \<open>normalize_array\<close> returns the elementwise clip of
  \<open>(raw - dark) / (white - dark)\<close> to the interval from \<open>EPSILON\<close> to 1, so every element
  of the result lies in that interval. \<open>clip_interval\<close> is the clip in the words of the
  specification, \<open>np_clip\<close> the one of numpy.
\<close>

theorem normalize_array_clip:
  assumes "length raw = length dark" and "length white = length dark"
    and "\<forall>k < length dark. flt (dark ! k) (white ! k)"
    and "\<forall>k < length dark.
           raw ! k \<noteq> NaN \<and>
           (is_finite (fsub (raw ! k) (dark ! k)) \<or> is_finite (fsub (white ! k) (dark ! k)))"
  shows "(\<exists>out. normalize_array raw dark white = Inr out \<and> length out = length raw \<and>
           (\<forall>k < length raw.
              out ! k = clip_interval EPSILON (Finite 1)
                          (fdiv (fsub (raw ! k) (dark ! k)) (fsub (white ! k) (dark ! k))) \<and>
              fle EPSILON (out ! k) \<and> fle (out ! k) (Finite 1)))
         \<and> EPSILON = Finite (1 / 10 ^ 8)"
proof -
  from normalize_array_nth [OF assms(1,2)] obtain out where
    out: "normalize_array raw dark white = Inr out" "length out = length dark"
      "\<forall>k < length dark.
         out ! k = clip_interval EPSILON (Finite 1)
                     (fdiv (fsub (raw ! k) (dark ! k)) (fsub (white ! k) (dark ! k)))"
    by blast
  have "fle EPSILON (out ! k) \<and> fle (out ! k) (Finite 1)" if "k < length dark" for k
  proof -
    from assms(3,4) that have "fdiv (fsub (raw ! k) (dark ! k)) (fsub (white ! k) (dark ! k)) \<noteq> NaN"
      by (intro quotient_not_nan) auto
    from clip_interval_range [OF this] out(3) that show ?thesis by simp
  qed
  with out assms(1) show ?thesis by (simp add: EPSILON_def)
qed

theorem normalize_array_clip_witness:
  "normalize_array (fl [2, 7]) (fl [1, 1]) (fl [3, 3]) = Inr (fl [1 / 2, 1])"
proof -
  have h1: "length (fl [2, 7]) = length (fl [1, 1])" by (simp add: fl_def)
  have h2: "length (fl [3, 3]) = length (fl [1, 1])" by (simp add: fl_def)
  have h3: "\<forall>k < length (fl [1, 1]). flt (fl [1, 1] ! k) (fl [3, 3] ! k)"
    by (simp add: fl_def All_less_Suc)
  have h4: "\<forall>k < length (fl [1, 1]).
              fl [2, 7] ! k \<noteq> NaN \<and>
              (is_finite (fsub (fl [2, 7] ! k) (fl [1, 1] ! k))
               \<or> is_finite (fsub (fl [3, 3] ! k) (fl [1, 1] ! k)))"
    by (simp add: fl_def All_less_Suc is_finite_def fsub_def of_real64_small)
  from normalize_array_clip [OF h1 h2 h3 h4] show ?thesis
    by (simp add: fl_def normalize_array_def broadcast_def np_clip_def fmax_def fmin_def
        fsub_def of_real64_small EPSILON_def)
qed

text \<open>
  Claim C6, as stated, fails: with \<open>dark = 0\<close> and \<open>white = 2\<close> the value 1 normalizes
  to 1/2 and 1/2 normalizes to 1/4.
\<close>

theorem normalize_twice_counterexample:
  "normalize_twice (fl [1]) (fl [0]) (fl [2]) \<noteq> normalize_array (fl [1]) (fl [0]) (fl [2])"
  by (simp add: fl_def normalize_twice_def normalize_array_def broadcast_def np_clip_def
      fmax_def fmin_def fsub_def of_real64_small EPSILON_def)

text \<open>
  Claim C6, amended. For references of the shape of the array with \<open>white > dark\<close>
  elementwise, clipping the normalized array again leaves it unchanged, and normalizing
  it again returns the same array when \<open>dark\<close> is 0 and \<open>white\<close> is 1 everywhere.
\<close>

theorem normalize_clip_idempotent:
  assumes "length a = length dark" and "length white = length dark"
    and "\<forall>k < length dark. flt (dark ! k) (white ! k)"
  shows "\<exists>out. normalize_array a dark white = Inr out \<and>
           map (np_clip (Some EPSILON) (Some (Finite 1))) out = out \<and>
           ((\<forall>k < length dark. dark ! k = Finite 0 \<and> white ! k = Finite 1) \<longrightarrow>
              normalize_twice a dark white = Inr out)"
proof -
  from normalize_array_nth [OF assms(1,2)] obtain out where
    out: "normalize_array a dark white = Inr out" "length out = length dark"
      "\<forall>k < length dark.
         out ! k = clip_interval EPSILON (Finite 1)
                     (fdiv (fsub (a ! k) (dark ! k)) (fsub (white ! k) (dark ! k)))"
    by blast
  have fixed: "map (np_clip (Some EPSILON) (Some (Finite 1))) out = out"
    using out(2,3)
    by (simp add: list_eq_iff_nth_eq np_clip_interval clip_interval_idem)
  have twice: "normalize_twice a dark white = Inr out"
    if ident: "\<forall>k < length dark. dark ! k = Finite 0 \<and> white ! k = Finite 1"
  proof -
    from normalize_array_nth [OF out(2) assms(2)] obtain out' where
      out': "normalize_array out dark white = Inr out'" "length out' = length dark"
        "\<forall>k < length dark.
           out' ! k = clip_interval EPSILON (Finite 1)
                        (fdiv (fsub (out ! k) (dark ! k)) (fsub (white ! k) (dark ! k)))"
      by blast
    have "out' ! k = out ! k" if "k < length dark" for k
      using out'(3) out(3) ident that by (simp add: clip_interval_identity_refs)
    with out(2) out'(2) have "out' = out" by (simp add: list_eq_iff_nth_eq)
    with out(1) out'(1) show ?thesis by (simp add: normalize_twice_def)
  qed
  from out(1) fixed twice show ?thesis by blast
qed

theorem normalize_clip_idempotent_witness:
  "normalize_twice (fl [1 / 2, 3]) (fl [0, 0]) (fl [1, 1]) = Inr (fl [1 / 2, 1])"
proof -
  have h1: "length (fl [1 / 2, 3]) = length (fl [0, 0])" by (simp add: fl_def)
  have h2: "length (fl [1, 1]) = length (fl [0, 0])" by (simp add: fl_def)
  have h3: "\<forall>k < length (fl [0, 0]). flt (fl [0, 0] ! k) (fl [1, 1] ! k)"
    by (simp add: fl_def All_less_Suc)
  have h4: "\<forall>k < length (fl [0, 0]). fl [0, 0] ! k = Finite 0 \<and> fl [1, 1] ! k = Finite 1"
    by (simp add: fl_def All_less_Suc)
  have n: "normalize_array (fl [1 / 2, 3]) (fl [0, 0]) (fl [1, 1]) = Inr (fl [1 / 2, 1])"
    by (simp add: fl_def normalize_array_def broadcast_def np_clip_def fmax_def fmin_def
        fsub_def of_real64_small EPSILON_def)
  from normalize_clip_idempotent [OF h1 h2 h3] h4 n show ?thesis
    by auto
qed

section \<open>Root Scanner\<close>

lemma inner_loop: "fold (\<lambda>b acc. acc @ [g b]) ys acc = acc @ map g ys"
  by (induction ys arbitrary: acc) simp_all

lemma outer_loop: "fold (\<lambda>a acc. acc @ h a) xs acc = acc @ concat (map h xs)"
  by (induction xs arbitrary: acc) simp_all

lemma multiply_loop_concat:
  "multiply_loop xs ys = concat (map (\<lambda>a. map (\<lambda>b. (fst a, Some (fst b))) ys) xs)"
  by (simp add: multiply_loop_def inner_loop outer_loop)

lemma length_concat_const:
  "length (concat (map (\<lambda>a. map (g a) ys) xs)) = length xs * length ys"
  by (induction xs) simp_all

lemma length_cross_list: "length (cross_list L) = (length L div 2) * ((length L + 1) div 2)"
proof -
  have h: "length L - length L div 2 = (length L + 1) div 2" by presburger
  have "length (take (length L div 2) L) = length L div 2" by simp
  moreover have "length (drop (length L div 2) L) = (length L + 1) div 2"
    using h by simp
  ultimately show ?thesis
    unfolding cross_list_def length_concat_const by simp
qed

text \<open>
  Claim C4. For a root whose listing is \<open>fs\<close>, with \<open>N\<close> the number of entries that are
  neither hidden nor \<open>Dark\<close> nor \<open>White\<close>: without augmentation the candidate index is
  the \<open>N\<close> singular descriptors, each with an empty second slot; with augmentation it is
  the singular list, then the cross list of the first \<open>N div 2\<close> positions with the
  remaining ones, then the square list, of length
  \<open>N + (N div 2) * ((N + 1) div 2) + N\<close>.
\<close>

theorem scan_root_candidates:
  assumes "listing w (root_dir self) = Some fs"
  shows "scan_root self w =
           (Inr (if augment self
                 then singular_list (root_dir self) fs
                      @ cross_list (singular_list (root_dir self) fs)
                      @ square_list (singular_list (root_dir self) fs)
                 else singular_list (root_dir self) fs), w)
         \<and> length (singular_list (root_dir self) fs) = length (filter keep_entry fs)
         \<and> list_all (\<lambda>d. snd d = None) (singular_list (root_dir self) fs)
         \<and> length (singular_list (root_dir self) fs
                   @ cross_list (singular_list (root_dir self) fs)
                   @ square_list (singular_list (root_dir self) fs))
             = length (filter keep_entry fs)
               + (length (filter keep_entry fs) div 2) * ((length (filter keep_entry fs) + 1) div 2)
               + length (filter keep_entry fs)"
proof -
  have a: "scan_root self w =
           (Inr (if augment self
                 then singular_list (root_dir self) fs
                      @ cross_list (singular_list (root_dir self) fs)
                      @ square_list (singular_list (root_dir self) fs)
                 else singular_list (root_dir self) fs), w)"
    using assms
    by (simp add: scan_root_def os_listdir_def Let_def multiply_loop_concat
        singular_list_def cross_list_def square_list_def)
  have b: "length (singular_list (root_dir self) fs) = length (filter keep_entry fs)"
    by (simp add: singular_list_def)
  have c: "list_all (\<lambda>d. snd d = None) (singular_list (root_dir self) fs)"
    by (simp add: singular_list_def list_all_iff)
  have d: "length (square_list (singular_list (root_dir self) fs)) = length (filter keep_entry fs)"
    by (simp add: square_list_def singular_list_def)
  from a b c d show ?thesis
    by (simp add: length_cross_list)
qed

theorem scan_root_candidates_witness:
  "scan_root (ex_self\<lparr>augment := True\<rparr>) ex_world =
     (Inr [(''data/A'', None), (''data/B'', None), (''data/A'', Some ''data/B''),
           (''data/A'', Some ''data/A''), (''data/B'', Some ''data/B'')], ex_world)"
proof -
  have h: "listing ex_world (root_dir (ex_self\<lparr>augment := True\<rparr>))
             = Some [''Dark'', ''A'', ''.git'', ''White'', ''B'']"
    by (simp add: ex_world_def ex_self_def)
  have s: "singular_list ''data'' [''Dark'', ''A'', ''.git'', ''White'', ''B'']
             = [(''data/A'', None), (''data/B'', None)]"
    by (simp add: singular_list_def keep_entry_def startswith_def os_path_join_def)
  from scan_root_candidates [OF h] show ?thesis
    by (simp add: ex_self_def s cross_list_def square_list_def)
qed

section \<open>Reads leave the file system alone\<close>

lemma only_logged_refl: "only_logged w w"
  by (simp add: only_logged_def)

lemma only_logged_trans: "only_logged w w' \<Longrightarrow> only_logged w' w'' \<Longrightarrow> only_logged w w''"
  by (cases w, cases w', cases w'') (simp add: only_logged_def)

lemma only_logged_fields:
  assumes "only_logged w w'"
  shows "files w' = files w" and "dirs w' = dirs w" and "listing w' = listing w"
    and "mkdir_ok w' = mkdir_ok w" and "shuffled w' = shuffled w"
    and "parent_exists w' = parent_exists w" and "can_allocate w' = can_allocate w"
  using assms by (cases w, cases w', simp add: only_logged_def)+

lemma only_logged_logged: "only_logged w (logged p w)"
  by (simp add: only_logged_def logged_def)

lemma np_load_logged: "np_load p w = (r, w') \<Longrightarrow> only_logged w w'"
  by (auto simp: np_load_def only_logged_logged split: option.splits file_content.splits)

lemma pd_read_csv_logged: "pd_read_csv p w = (r, w') \<Longrightarrow> only_logged w w'"
  by (auto simp: pd_read_csv_def only_logged_logged split: option.splits file_content.splits)

lemma read_frame_logged: "read_frame folder t w = (r, w') \<Longrightarrow> only_logged w w'"
  by (auto simp: read_frame_def split: prod.splits sum.splits dest: np_load_logged)

lemma read_spectrum_logged: "read_spectrum folder rng w = (r, w') \<Longrightarrow> only_logged w w'"
  by (auto simp: read_spectrum_def Let_def split: prod.splits sum.splits dest: pd_read_csv_logged)

lemma read_measurement_logged: "read_measurement folder t rng w = (r, w') \<Longrightarrow> only_logged w w'"
  by (auto simp: read_measurement_def split: prod.splits sum.splits
      dest!: read_frame_logged read_spectrum_logged intro: only_logged_trans)

lemma read_meas_file_singular_logged:
  "read_meas_file_singular self path w = (r, w') \<Longrightarrow> only_logged w w'"
  by (auto simp: read_meas_file_singular_def split: prod.splits sum.splits
      dest!: read_measurement_logged)

lemma read_meas_file_logged: "read_meas_file self k w = (r, w') \<Longrightarrow> only_logged w w'"
  by (auto simp: read_meas_file_def Let_def only_logged_refl
      split: prod.splits sum.splits option.splits if_splits
      dest!: read_meas_file_singular_logged intro: only_logged_trans)

lemma combined_spectrum_logged: "combined_spectrum self meas w = (r, w') \<Longrightarrow> only_logged w w'"
  by (auto simp: combined_spectrum_def split: prod.splits sum.splits option.splits
      dest!: read_spectrum_logged intro: only_logged_trans)

lemma clean_loop_logged: "clean_loop self k ml w = (r, w') \<Longrightarrow> only_logged w w'"
proof (induction self k ml w arbitrary: r w' rule: clean_loop.induct)
  case (1 self k ml w)
  show ?case
  proof (cases "k < length ml")
    case False
    with "1.prems" show ?thesis
      by (simp add: clean_loop.simps only_logged_refl)
  next
    case True
    obtain c w1 where c: "combined_spectrum self (ml ! k) w = (c, w1)"
      by (cases "combined_spectrum self (ml ! k) w")
    from c have l1: "only_logged w w1" by (rule combined_spectrum_logged)
    show ?thesis
    proof (cases c)
      case (Inl e)
      with True c "1.prems" l1 show ?thesis
        by (simp add: clean_loop.simps [of self k ml w])
    next
      case (Inr spectrum)
      with True c "1.prems" have
        "clean_loop self (Suc k)
           (if mean_below spectrum (clean_threshold self) then remove1 (ml ! k) ml else ml) w1
         = (r, w')"
        by (simp add: clean_loop.simps [of self k ml w])
      with "1.IH" [OF True c [symmetric, unfolded Inr] refl] have "only_logged w1 w'"
        by blast
      with l1 show ?thesis by (rule only_logged_trans)
    qed
  qed
qed

section \<open>What a failing read raises\<close>

lemma broadcast_error: "broadcast f xs ys = Inl e \<Longrightarrow> e = ValueError"
  by (simp add: broadcast_def split: if_splits)

lemma normalize_array_error: "normalize_array a d wh = Inl e \<Longrightarrow> e = ValueError"
  by (auto simp: normalize_array_def split: sum.splits dest: broadcast_error)

lemma np_load_error: "np_load p w = (Inl e, w') \<Longrightarrow> read_failure e"
  by (auto simp: np_load_def read_failure_def split: option.splits file_content.splits)

lemma pd_read_csv_error: "pd_read_csv p w = (Inl e, w') \<Longrightarrow> read_failure e"
  by (auto simp: pd_read_csv_def read_failure_def split: option.splits file_content.splits)

lemma get_slice_bound_error: "get_slice_bound idx label left = Inl e \<Longrightarrow> e = KeyError"
  by (simp add: get_slice_bound_def Let_def split: if_splits)

lemma loc_slice_error: "loc_slice lo hi rows = Inl e \<Longrightarrow> read_failure e"
  by (auto simp: loc_slice_def read_failure_def split: if_splits sum.splits
      dest: get_slice_bound_error)

lemma read_frame_error: "read_frame folder t w = (Inl e, w') \<Longrightarrow> read_failure e"
  by (auto simp: read_frame_def split: prod.splits sum.splits dest: np_load_error)

lemma read_spectrum_error: "read_spectrum folder rng w = (Inl e, w') \<Longrightarrow> read_failure e"
  by (auto simp: read_spectrum_def Let_def
      split: prod.splits sum.splits dest: pd_read_csv_error loc_slice_error)

lemma read_measurement_error:
  "read_measurement folder t rng w = (Inl e, w') \<Longrightarrow> read_failure e"
  by (auto simp: read_measurement_def split: prod.splits sum.splits
      dest: read_frame_error read_spectrum_error)

lemma read_meas_file_singular_error:
  "read_meas_file_singular self path w = (Inl e, w') \<Longrightarrow> read_failure e"
  by (auto simp: read_meas_file_singular_def normalize_measurement_def read_failure_def
      split: prod.splits sum.splits dest: read_measurement_error normalize_array_error)

lemma read_meas_file_error:
  "read_meas_file self k w = (Inl e, w') \<Longrightarrow> read_failure e"
  by (auto simp: read_meas_file_def Let_def read_failure_def
      split: prod.splits sum.splits option.splits if_splits
      dest: read_meas_file_singular_error broadcast_error)



section \<open>Cleaning/Cache Manager\<close>

text \<open>
  Claim C8. When caching is enabled and a cache record holding the index \<open>F\<close> exists at
  the cache location, \<open>_init_dataset\<close> makes \<open>F\<close> the working index and leaves the
  world as it was: no directory is made, nothing is written, and the log of reads is
  unchanged, so no spectrum is read. Nothing is asked of the candidate index or of the
  measurement files.
\<close>

theorem init_dataset_cache_hit:
  assumes "cache self" and "files w (cache_record self) = Some (Pickle F)"
  shows "init_dataset self w =
           (Inr (self\<lparr>cache_dir := Some (cache_location self), meas_list := F,
                       ids := Some (if shuffle self then shuffled w [0..<length F]
                                    else [0..<length F])\<rparr>), w)"
  using assms
  by (simp add: init_dataset_def cache_record_def cache_location_def os_path_exists_def
      pickle_load_def Let_def)

theorem init_dataset_cache_hit_witness:
  "init_dataset ex_self ex_cached_world =
     (Inr (ex_self\<lparr>cache_dir := Some ''.spectre_cache/'', meas_list := [(''data/B'', None)],
                    ids := Some [0]\<rparr>), ex_cached_world)"
proof -
  have h1: "cache ex_self" by (simp add: ex_self_fields)
  have h2: "files ex_cached_world (cache_record ex_self) = Some (Pickle [(''data/B'', None)])"
    by (simp add: ex_self_fields ex_cached_world_def cache_record_def cache_location_def
        os_path_join_def)
  from init_dataset_cache_hit [OF h1 h2] show ?thesis
    by (simp add: ex_self_fields cache_location_def)
qed







section \<open>Lazy Iterator\<close>

subsection \<open>The object that the constructor returns\<close>

text \<open>
  \<open>np.random.shuffle\<close> permutes, so it keeps the length of what it shuffles. Then every
  object that \<open>__init__\<close> returns is finalized: \<open>_ids\<close> is as long as the index, the cursor
  is at 0 and \<open>num_meas\<close> is the length of the index.
\<close>

lemma try_mkdir_shuffled: "try_mkdir d w = (r, w') \<Longrightarrow> shuffled w' = shuffled w"
  by (auto simp: try_mkdir_def os_mkdir_def split: if_splits)

lemma pickle_dump_shuffled: "pickle_dump l d name w = (r, w') \<Longrightarrow> shuffled w' = shuffled w"
  by (auto simp: pickle_dump_def Let_def split: if_splits)

lemma pickle_load_world: "pickle_load p w = (r, w') \<Longrightarrow> w' = w"
  by (auto simp: pickle_load_def split: option.splits file_content.splits)

lemma init_dataset_finalized:
  assumes "init_dataset self w = (Inr self', w')"
    and "\<forall>xs. length (shuffled w xs) = length xs"
  shows "\<exists>p. ids self' = Some p \<and> length p = length (meas_list self') \<and> self_i self' = self_i self"
proof -
  have sh: "shuffled w' = shuffled w"
    using assms(1)
    by (auto simp: init_dataset_def Let_def
        split: if_splits prod.splits sum.splits
        dest!: try_mkdir_shuffled pickle_dump_shuffled pickle_load_world clean_loop_logged
        dest: only_logged_fields(5))
  from assms(1) show ?thesis
    using assms(2) sh
    by (auto simp: init_dataset_def Let_def split: if_splits prod.splits sum.splits)
qed

lemma read_reference_logged: "read_reference self w = (r, w') \<Longrightarrow> only_logged w w'"
  by (auto simp: read_reference_def split: prod.splits sum.splits
      dest!: read_measurement_logged intro: only_logged_trans)

lemma scan_root_world: "scan_root self w = (r, w') \<Longrightarrow> w' = w"
  by (auto simp: scan_root_def os_listdir_def Let_def
      split: prod.splits sum.splits option.splits if_splits)

lemma np_arange_world: "np_arange start stop w = (r, w') \<Longrightarrow> w' = w"
  by (auto simp: np_arange_def split: if_splits)

lemma SPECTRE_init_finalized:
  assumes "SPECTRE_init root_dir' int_time' shuffle' cache_dir' clean_threshold' lamb_range'
             cache' augment' w = (Inr self, w')"
    and "\<forall>xs. length (shuffled w xs) = length xs"
  shows "\<exists>p. ids self = Some p \<and> length p = length (meas_list self) \<and> self_i self = 0
           \<and> num_meas self = length (meas_list self)"
proof -
  let ?lit = "\<lambda>ws. \<lparr>int_time = int_time', lamb_range = lamb_range', wavelengths = ws,
                root_dir = root_dir', cache_dir = cache_dir', cache = cache',
                clean_threshold = clean_threshold', augment = augment', shuffle = shuffle',
                ids = None, self_i = 0, dark_meas = ([], []), white_meas = ([], []),
                meas_list = [], num_meas = 0\<rparr>"
  from assms(1) obtain ws w0 dark white w1 ml w2 n self0 where
    ar: "np_arange (fst lamb_range') (snd lamb_range') w = (Inr ws, w0)" and
    ref: "read_reference (?lit ws) w0 = (Inr (dark, white), w1)" and
    sc: "scan_root (?lit ws\<lparr>dark_meas := dark, white_meas := white\<rparr>) w1 = (Inr ml, w2)" and
    ln: "len (?lit ws\<lparr>dark_meas := dark, white_meas := white, meas_list := ml\<rparr>) w2
           = (Inr (n, self0), w')" and
    self: "self = self0\<lparr>num_meas := n\<rparr>"
    by (auto simp: SPECTRE_init_def Let_def split: prod.splits sum.splits)
  from ar have "w0 = w" by (rule np_arange_world)
  moreover from ref have "shuffled w1 = shuffled w0"
    by (auto dest!: read_reference_logged dest: only_logged_fields(5))
  moreover from sc have "w2 = w1" by (rule scan_root_world)
  ultimately have sh: "\<forall>xs. length (shuffled w2 xs) = length xs"
    using assms(2) by simp
  from ln obtain p where
    i: "init_dataset (?lit ws\<lparr>dark_meas := dark, white_meas := white, meas_list := ml\<rparr>) w2
          = (Inr self0, w')" and p: "ids self0 = Some p" and n: "n = length p"
    by (auto simp: len_def split: prod.splits sum.splits option.splits)
  from init_dataset_finalized [OF i sh] p n self show ?thesis by auto
qed

subsection \<open>Producing the samples\<close>

lemma len_finalized:
  assumes "ids self = Some p" and "length p = length (meas_list self)"
  shows "len self w = (Inr (length (meas_list self), self), w)"
  using assms by (simp add: len_def)

lemma send_finalized:
  assumes "ids self = Some p" and "length p = length (meas_list self)"
  shows "send self w =
           (if self_i self < length (meas_list self) then
              (case read_meas_file self (self_i self) w of
                 (Inl e, w') \<Rightarrow> (Inl e, self, w')
               | (Inr v, w') \<Rightarrow> (Inr v, self\<lparr>self_i := self_i self + 1\<rparr>, w'))
            else (Inl StopIteration, self, w))"
  by (simp add: send_def len_finalized [OF assms])

lemma normalize_measurement_cursor:
  "normalize_measurement (self\<lparr>self_i := c\<rparr>) = normalize_measurement self"
  by (intro ext) (simp add: normalize_measurement_def split: sum.splits)

lemma read_meas_file_singular_cursor:
  "read_meas_file_singular (self\<lparr>self_i := c\<rparr>) = read_meas_file_singular self"
  by (intro ext) (simp add: read_meas_file_singular_def normalize_measurement_cursor split: sum.splits prod.splits)

lemma read_meas_file_cursor:
  "read_meas_file (self\<lparr>self_i := c\<rparr>) k w = read_meas_file self k w"
  unfolding read_meas_file_def read_meas_file_singular_cursor by simp

lemma fst_sends_Suc:
  "fst (sends (Suc n) self w) =
     (case send self w of (r, self', w') \<Rightarrow> r # fst (sends n self' w'))"
  by (simp split: prod.splits)

lemma relog_only_logged: "only_logged w w' \<Longrightarrow> w'\<lparr>read_log := l\<rparr> = w\<lparr>read_log := l\<rparr>"
  by (cases w, cases w') (simp add: only_logged_def)

lemma sends_from_cursor:
  assumes "ids self = Some p" and "length p = length (meas_list self)"
    and "\<forall>k < length (meas_list self). \<forall>l.
           \<exists>v. fst (read_meas_file self k (w\<lparr>read_log := l\<rparr>)) = Inr v"
  shows "\<exists>vs. length vs = min n (length (meas_list self) - self_i self) \<and>
           fst (sends n self w) =
             map Inr vs @ replicate (n - (length (meas_list self) - self_i self)) (Inl StopIteration)"
  using assms
proof (induction n arbitrary: self w)
  case 0
  then show ?case by simp
next
  case (Suc n)
  let ?K = "length (meas_list self)"
  note fin = Suc.prems(1,2)
  show ?case
  proof (cases "self_i self < ?K")
    case False
    then have s: "send self w = (Inl StopIteration, self, w)"
      by (simp add: send_finalized [OF fin])
    from Suc.IH [OF Suc.prems] obtain vs where
      vs: "length vs = min n (?K - self_i self)"
        "fst (sends n self w) = map Inr vs @ replicate (n - (?K - self_i self)) (Inl StopIteration)"
      by blast
    from False vs(1) have "vs = []" by simp
    with vs(2) False s have
      "fst (sends (Suc n) self w) = map Inr [] @ replicate (Suc n - (?K - self_i self)) (Inl StopIteration)"
      by (simp add: fst_sends_Suc del: sends.simps)
    with False show ?thesis by (intro exI [of _ "[]"]) simp
  next
    case True
    from Suc.prems(3) True obtain v where
      "fst (read_meas_file self (self_i self) (w\<lparr>read_log := read_log w\<rparr>)) = Inr v"
      by blast
    then obtain w' where r: "read_meas_file self (self_i self) w = (Inr v, w')"
      by (cases "read_meas_file self (self_i self) w") simp
    from r have lg: "only_logged w w'" by (rule read_meas_file_logged)
    let ?self = "self\<lparr>self_i := self_i self + 1\<rparr>"
    from True r have s: "send self w = (Inr v, ?self, w')"
      by (simp add: send_finalized [OF fin])
    have fin': "ids ?self = Some p" "length p = length (meas_list ?self)"
      using fin by simp_all
    have rd': "\<forall>k < length (meas_list ?self). \<forall>l.
                 \<exists>v. fst (read_meas_file ?self k (w'\<lparr>read_log := l\<rparr>)) = Inr v"
      using Suc.prems(3) by (simp add: read_meas_file_cursor relog_only_logged [OF lg])
    from Suc.IH [OF fin' rd'] obtain vs where
      vs: "length vs = min n (?K - (self_i self + 1))"
        "fst (sends n ?self w') =
           map Inr vs @ replicate (n - (?K - (self_i self + 1))) (Inl StopIteration)"
      by auto
    from s vs(2) have
      "fst (sends (Suc n) self w) =
         map Inr (v # vs) @ replicate (n - (?K - (self_i self + 1))) (Inl StopIteration)"
      by (simp add: fst_sends_Suc del: sends.simps)
    moreover from True have "n - (?K - (self_i self + 1)) = Suc n - (?K - self_i self)"
      by arith
    moreover from True vs(1) have "length (v # vs) = min (Suc n) (?K - self_i self)"
      by (simp add: min_def) arith
    ultimately show ?thesis by metis
  qed
qed

lemma send_stop_iff:
  assumes "ids self = Some p" and "length p = length (meas_list self)"
  shows "(fst (send self w) = Inl StopIteration) = (length (meas_list self) \<le> self_i self)"
proof (cases "self_i self < length (meas_list self)")
  case False
  then show ?thesis by (simp add: send_finalized [OF assms])
next
  case True
  obtain r w' where r: "read_meas_file self (self_i self) w = (r, w')"
    by (cases "read_meas_file self (self_i self) w")
  show ?thesis
  proof (cases r)
    case (Inl e)
    with r have "e \<noteq> StopIteration"
      by (auto dest!: read_meas_file_error simp: read_failure_def)
    with True r Inl show ?thesis by (simp add: send_finalized [OF assms])
  next
    case (Inr v)
    with True r show ?thesis by (simp add: send_finalized [OF assms])
  qed
qed

text \<open>
  Claim C7, as stated, fails. On the example root without the frame of \<open>B\<close> and with
  \<open>clean_threshold = 0\<close>, the cleaning, which reads spectra only, keeps both
  descriptors. Of four calls of \<open>send\<close> the first returns the sample of \<open>A\<close> and each of
  the others raises \<open>FileNotFoundError\<close>: one production for two surviving samples, and
  no \<open>StopIteration\<close>.
\<close>

theorem send_unreadable_counterexample:
  "fst (observe ''data'' 1400 False None (Finite 0) (450, 690) False False
          (Suc (Suc (Suc (Suc 0)))) ex_world_no_frame) =
     Inr ([(''data/A'', None), (''data/B'', None)],
          [Inr (fl [1 / 4, 1 / 2], fl [1 / 10, 1 / 10]), Inl FileNotFoundError,
           Inl FileNotFoundError, Inl FileNotFoundError])"
  by (simp add: observe_def SPECTRE_init_def ex_world_no_frame_def clean_loop.simps eval_defs
      str_int_1400)

text \<open>
  Claim C7, amended. Take a finalized dataset with the cursor at 0 whose index has \<open>K\<close>
  descriptors, each of which can be materialized whatever has been read before. Of any
  \<open>n\<close> calls of \<open>send\<close> in a row, the first \<open>K\<close> return a value and every later one raises
  \<open>StopIteration\<close>. At any cursor \<open>c\<close> and in any world, \<open>send\<close> raises \<open>StopIteration\<close>
  exactly when \<open>c\<close> has reached \<open>K\<close>: a failing read raises something else.
\<close>

theorem send_exhaustion:
  assumes "ids self = Some p" and "length p = length (meas_list self)" and "self_i self = 0"
    and "\<forall>k < length (meas_list self). \<forall>l.
           \<exists>v. fst (read_meas_file self k (w\<lparr>read_log := l\<rparr>)) = Inr v"
  shows "(\<exists>vs. length vs = min n (length (meas_list self)) \<and>
            fst (sends n self w) =
              map Inr vs @ replicate (n - length (meas_list self)) (Inl StopIteration))
         \<and> (fst (send (self\<lparr>self_i := c\<rparr>) w') = Inl StopIteration)
             = (length (meas_list self) \<le> c)"
proof -
  have "ids (self\<lparr>self_i := c\<rparr>) = Some p"
    and "length p = length (meas_list (self\<lparr>self_i := c\<rparr>))"
    using assms(1,2) by simp_all
  from send_stop_iff [OF this, of w'] sends_from_cursor [OF assms(1,2,4), of n] assms(3)
  show ?thesis by simp
qed

theorem send_exhaustion_witness:
  "fst (sends (Suc (Suc (Suc (Suc 0)))) ex_final ex_world) =
     [Inr (fl [1 / 4, 1 / 2], fl [1 / 10, 1 / 10]), Inr (fl [1 / 2, 3 / 4], fl [1 / 10, 1 / 10]),
      Inl StopIteration, Inl StopIteration]"
proof -
  have f: "meas_list ex_final = [(''data/A'', None), (''data/B'', None)]"
    "int_time ex_final = 1400" "self_i ex_final = 0" "ids ex_final = Some [0, 1]"
    "dark_meas ex_final = (fl [1, 1], fl [1, 1])"
    "white_meas ex_final = (fl [5, 5], fl [11, 11])"
    by (simp_all add: ex_final_def ex_self_fields)
  have h2: "length [0, 1 :: nat] = length (meas_list ex_final)"
    by (simp add: f)
  have h4: "\<forall>k < length (meas_list ex_final). \<forall>l.
              \<exists>v. fst (read_meas_file ex_final k (ex_world\<lparr>read_log := l\<rparr>)) = Inr v"
    by (simp add: f All_less_Suc eval_defs str_int_1400)
  from send_exhaustion [OF f(4) h2 f(3) h4, of "Suc (Suc (Suc (Suc 0)))"] show ?thesis
    by (simp add: f eval_defs str_int_1400)
qed

section \<open>Independence of the configured wavelength range\<close>

lemma same_but_range_fields:
  assumes "same_but_range a b"
  shows "int_time a = int_time b" and "root_dir a = root_dir b" and "cache_dir a = cache_dir b"
    and "cache a = cache b" and "clean_threshold a = clean_threshold b"
    and "augment a = augment b" and "shuffle a = shuffle b" and "ids a = ids b"
    and "self_i a = self_i b" and "dark_meas a = dark_meas b" and "white_meas a = white_meas b"
    and "meas_list a = meas_list b" and "num_meas a = num_meas b"
  using assms by (simp_all add: same_but_range_def)

lemma read_reference_range:
  assumes "same_but_range a b"
  shows "read_reference a = read_reference b"
  unfolding read_reference_def same_but_range_fields [OF assms] by (rule refl)

lemma scan_root_range:
  assumes "same_but_range a b"
  shows "scan_root a = scan_root b"
  unfolding scan_root_def same_but_range_fields [OF assms] by (rule refl)

lemma combined_spectrum_range:
  assumes "same_but_range a b"
  shows "combined_spectrum a = combined_spectrum b"
  unfolding combined_spectrum_def same_but_range_fields [OF assms] by (rule refl)

lemma clean_loop_range:
  "same_but_range a b \<Longrightarrow> clean_loop a k ml w = clean_loop b k ml w"
proof (induction a k ml w rule: clean_loop.induct)
  case (1 self k ml w)
  note cs = combined_spectrum_range [OF "1.prems"]
  note thr = same_but_range_fields(5) [OF "1.prems"]
  show ?case
  proof (cases "k < length ml")
    case False
    then show ?thesis by (simp add: clean_loop.simps)
  next
    case True
    obtain c w1 where c: "combined_spectrum self (ml ! k) w = (c, w1)"
      by (cases "combined_spectrum self (ml ! k) w")
    show ?thesis
    proof (cases c)
      case (Inl e)
      with True c show ?thesis
        by (simp add: clean_loop.simps [of self k ml w] clean_loop.simps [of b k ml w]
            cs [symmetric])
    next
      case (Inr spectrum)
      from "1.IH" [OF True c [symmetric, unfolded Inr] refl "1.prems"]
      show ?thesis using True c Inr thr
        by (simp add: clean_loop.simps [of self k ml w] clean_loop.simps [of b k ml w]
            cs [symmetric])
    qed
  qed
qed

lemma same_but_range_cache_dir:
  "same_but_range a b \<Longrightarrow> same_but_range (a\<lparr>cache_dir := c\<rparr>) (b\<lparr>cache_dir := c\<rparr>)"
  by (simp add: same_but_range_def)

lemma init_dataset_range:
  assumes "same_but_range a b"
  shows "rel_sum (=) same_but_range (fst (init_dataset a w)) (fst (init_dataset b w))
         \<and> snd (init_dataset a w) = snd (init_dataset b w)"
proof -
  note f = same_but_range_fields [OF assms]
  note cl = clean_loop_range [OF same_but_range_cache_dir [OF assms]]
  show ?thesis
    using assms
    by (auto simp: init_dataset_def Let_def f cl same_but_range_def
        split: prod.splits sum.splits)
qed

lemma len_range:
  assumes "same_but_range a b"
  shows "rel_sum (=) (rel_prod (=) same_but_range) (fst (len a w)) (fst (len b w))
         \<and> snd (len a w) = snd (len b w)"
proof (cases "ids b")
  case (Some p)
  with assms show ?thesis
    by (simp add: len_def same_but_range_fields [OF assms])
next
  case None
  obtain ra wa where a: "init_dataset a w = (ra, wa)" by (cases "init_dataset a w")
  obtain rb wb where b: "init_dataset b w = (rb, wb)" by (cases "init_dataset b w")
  from init_dataset_range [OF assms, of w] a b
  have r: "rel_sum (=) same_but_range ra rb" and w: "wa = wb" by simp_all
  from r None a b w show ?thesis
    by (cases ra; cases rb)
      (auto simp: len_def same_but_range_fields [OF assms]
        dest: same_but_range_fields(8) split: option.splits)
qed

lemma read_meas_file_range:
  assumes "same_but_range a b"
  shows "read_meas_file a = read_meas_file b"
  unfolding read_meas_file_def read_meas_file_singular_def normalize_measurement_def
    same_but_range_fields [OF assms]
  by (rule refl)

lemma same_but_range_cursor:
  "same_but_range a b \<Longrightarrow> same_but_range (a\<lparr>self_i := c\<rparr>) (b\<lparr>self_i := c\<rparr>)"
  by (simp add: same_but_range_def)

lemma send_range:
  assumes "same_but_range a b"
  shows "fst (send a w) = fst (send b w)
         \<and> same_but_range (fst (snd (send a w))) (fst (snd (send b w)))
         \<and> snd (snd (send a w)) = snd (snd (send b w))"
proof -
  obtain ra wa where a: "len a w = (ra, wa)" by (cases "len a w")
  obtain rb wb where b: "len b w = (rb, wb)" by (cases "len b w")
  from len_range [OF assms, of w] a b
  have r: "rel_sum (=) (rel_prod (=) same_but_range) ra rb" and w: "wa = wb" by simp_all
  show ?thesis
  proof (cases ra)
    case (Inl e)
    with r a b w assms show ?thesis by (cases rb) (simp_all add: send_def)
  next
    case (Inr x)
    with r obtain n a' b' where
      x: "ra = Inr (n, a')" "rb = Inr (n, b')" and ab: "same_but_range a' b'"
      by (cases rb; cases x) auto
    note rm = read_meas_file_range [OF ab]
    note i = same_but_range_fields(9) [OF ab]
    from a b w x ab show ?thesis
      by (auto simp: send_def rm i same_but_range_cursor [OF ab] split: prod.splits sum.splits)
  qed
qed

lemma sends_range:
  "same_but_range a b \<Longrightarrow>
     fst (sends n a w) = fst (sends n b w)
     \<and> snd (snd (sends n a w)) = snd (snd (sends n b w))"
proof (induction n arbitrary: a b w)
  case 0
  then show ?case by simp
next
  case (Suc n)
  obtain r a' w' where a: "send a w = (r, a', w')" by (cases "send a w") auto
  obtain r2 b' w2 where b: "send b w = (r2, b', w2)" by (cases "send b w") auto
  from send_range [OF Suc.prems, of w] a b
  have e: "r = r2" "w' = w2" and ab: "same_but_range a' b'" by simp_all
  from Suc.IH [OF ab, of w'] a b e show ?case
    by (auto split: prod.splits)
qed

lemma same_but_range_num_meas:
  "same_but_range a b \<Longrightarrow> same_but_range (a\<lparr>num_meas := c\<rparr>) (b\<lparr>num_meas := c\<rparr>)"
  by (simp add: same_but_range_def)

lemma arange_succeeds_eq:
  "arange_succeeds r w \<Longrightarrow> np_arange (fst r) (snd r) w = (Inr [fst r..snd r - 1], w)"
  by (auto simp: arange_succeeds_def np_arange_def split: if_splits)

lemma SPECTRE_init_range:
  assumes "arange_succeeds r1 w" and "arange_succeeds r2 w"
  shows "rel_sum (=) same_but_range
     (fst (SPECTRE_init root_dir' int_time' shuffle' cache_dir' clean_threshold' r1
             cache' augment' w))
     (fst (SPECTRE_init root_dir' int_time' shuffle' cache_dir' clean_threshold' r2
             cache' augment' w))
   \<and> snd (SPECTRE_init root_dir' int_time' shuffle' cache_dir' clean_threshold' r1
             cache' augment' w)
     = snd (SPECTRE_init root_dir' int_time' shuffle' cache_dir' clean_threshold' r2
             cache' augment' w)"
proof -
  let ?lit = "\<lambda>r. \<lparr>int_time = int_time', lamb_range = r, wavelengths = [fst r..snd r - 1],
                  root_dir = root_dir', cache_dir = cache_dir', cache = cache',
                  clean_threshold = clean_threshold', augment = augment', shuffle = shuffle',
                  ids = None, self_i = 0, dark_meas = ([], []), white_meas = ([], []),
                  meas_list = [], num_meas = 0\<rparr>"
  note ar1 = arange_succeeds_eq [OF assms(1)]
  note ar2 = arange_succeeds_eq [OF assms(2)]
  have lit: "same_but_range (?lit r1) (?lit r2)" by (simp add: same_but_range_def)
  note rr = read_reference_range [OF lit]
  obtain ref w1 where ref: "read_reference (?lit r2) w = (ref, w1)"
    by (cases "read_reference (?lit r2) w")
  show ?thesis
  proof (cases ref)
    case (Inl e)
    with ref show ?thesis by (simp add: SPECTRE_init_def ar1 ar2 rr)
  next
    case (Inr dw)
    obtain dark white where dw: "dw = (dark, white)" by (cases dw)
    let ?a = "?lit r1\<lparr>dark_meas := dark, white_meas := white\<rparr>"
    let ?b = "?lit r2\<lparr>dark_meas := dark, white_meas := white\<rparr>"
    have ab: "same_but_range ?a ?b" by (simp add: same_but_range_def)
    note sr = scan_root_range [OF ab]
    obtain sc w2 where sc: "scan_root ?b w1 = (sc, w2)" by (cases "scan_root ?b w1")
    show ?thesis
    proof (cases sc)
      case (Inl e)
      with ref Inr dw sc sr show ?thesis by (simp add: SPECTRE_init_def ar1 ar2 rr)
    next
      case ml: (Inr ml)
      let ?a' = "?lit r1\<lparr>dark_meas := dark, white_meas := white, meas_list := ml\<rparr>"
      let ?b' = "?lit r2\<lparr>dark_meas := dark, white_meas := white, meas_list := ml\<rparr>"
      have ab': "same_but_range ?a' ?b'" by (simp add: same_but_range_def)
      obtain ra wa where a: "len ?a' w2 = (ra, wa)" by (cases "len ?a' w2")
      obtain rb wb where b: "len ?b' w2 = (rb, wb)" by (cases "len ?b' w2")
      from len_range [OF ab', of w2] a b
      have r: "rel_sum (=) (rel_prod (=) same_but_range) ra rb" and weq: "wa = wb"
        by simp_all
      have ia: "SPECTRE_init root_dir' int_time' shuffle' cache_dir' clean_threshold' r1
                  cache' augment' w
                = (case ra of Inl e \<Rightarrow> (Inl e, wa)
                   | Inr (n, self') \<Rightarrow> (Inr (self'\<lparr>num_meas := n\<rparr>), wa))"
        using ref Inr dw sc sr ml a
        by (simp add: SPECTRE_init_def ar1 rr split: sum.splits prod.splits)
      have ib: "SPECTRE_init root_dir' int_time' shuffle' cache_dir' clean_threshold' r2
                  cache' augment' w
                = (case rb of Inl e \<Rightarrow> (Inl e, wb)
                   | Inr (n, self') \<Rightarrow> (Inr (self'\<lparr>num_meas := n\<rparr>), wb))"
        using ref Inr dw sc ml b
        by (simp add: SPECTRE_init_def ar2 split: sum.splits prod.splits)
      from r weq show ?thesis
        unfolding ia ib
        by (cases ra; cases rb) (auto simp: same_but_range_num_meas)
    qed
  qed
qed

text \<open>
  Claim C9, as stated, fails. \<open>__init__\<close> builds \<open>np.arange(*self.lamb_range)\<close> before it
  reads anything: for the range from 0 to \<open>2 ^ 70\<close> that raises \<open>ValueError\<close> and there is
  no dataset, for the range from 450 to 690 the dataset is built.
\<close>

theorem lamb_range_counterexample:
  "fst (observe ''data'' 1400 False None (Finite 0) (0, 2 ^ 70) False False 0 ex_world)
     = Inl ValueError
   \<and> fst (observe ''data'' 1400 False None (Finite 0) (450, 690) False False 0 ex_world)
     = Inr ([(''data/A'', None), (''data/B'', None)], [])"
  by (simp add: observe_def SPECTRE_init_def clean_loop.simps eval_defs str_int_1400)

text \<open>
  Claim C9, amended. Whatever the other arguments and the world are, two configured
  wavelength ranges for which \<open>np.arange\<close> returns an array give the same observation: the
  same filtered index out of the cleaning, the same result of every call of \<open>send\<close>, and
  the same world with the same log of reads (or the same exception out of the
  constructor). \<open>read_spectrum\<close> itself does depend on the range it is given; every call
  in the program gives it \<open>default_lamb_range\<close>.
\<close>

theorem samples_independent_of_lamb_range:
  assumes "arange_succeeds r1 w" and "arange_succeeds r2 w"
  shows "observe root_dir' int_time' shuffle' cache_dir' clean_threshold' r1 cache' augment' n w =
   observe root_dir' int_time' shuffle' cache_dir' clean_threshold' r2 cache' augment' n w"
proof -
  let ?i1 = "SPECTRE_init root_dir' int_time' shuffle' cache_dir' clean_threshold' r1
               cache' augment' w"
  let ?i2 = "SPECTRE_init root_dir' int_time' shuffle' cache_dir' clean_threshold' r2
               cache' augment' w"
  obtain ra wa where a: "?i1 = (ra, wa)" by (cases ?i1)
  obtain rb wb where b: "?i2 = (rb, wb)" by (cases ?i2)
  from SPECTRE_init_range [OF assms, of root_dir' int_time' shuffle' cache_dir'
      clean_threshold' cache' augment'] a b
  have r: "rel_sum (=) same_but_range ra rb" and weq: "wa = wb" by simp_all
  show ?thesis
  proof (cases ra)
    case (Inl e)
    with r a b weq show ?thesis by (cases rb) (simp_all add: observe_def)
  next
    case (Inr sa)
    with r obtain sb where sb: "rb = Inr sb" and ab: "same_but_range sa sb"
      by (cases rb) auto
    from sends_range [OF ab, of n wa] same_but_range_fields(12) [OF ab] a b Inr sb weq
    show ?thesis
      by (auto simp: observe_def split: prod.splits)
  qed
qed

theorem samples_independent_of_lamb_range_witness:
  "fst (observe ''data'' 1400 False None (Finite 0) (600, 700) False False
          (Suc (Suc (Suc 0))) ex_world) =
     Inr ([(''data/A'', None), (''data/B'', None)],
          [Inr (fl [1 / 4, 1 / 2], fl [1 / 10, 1 / 10]),
           Inr (fl [1 / 2, 3 / 4], fl [1 / 10, 1 / 10]),
           Inl StopIteration])"
proof -
  have h1: "arange_succeeds (600, 700) ex_world"
    by (simp add: arange_succeeds_def np_arange_def ex_world_def)
  have h2: "arange_succeeds (450, 690) ex_world"
    by (simp add: arange_succeeds_def np_arange_def ex_world_def)
  have "observe ''data'' 1400 False None (Finite 0) (600, 700) False False
          (Suc (Suc (Suc 0))) ex_world =
        observe ''data'' 1400 False None (Finite 0) (450, 690) False False
          (Suc (Suc (Suc 0))) ex_world"
    by (rule samples_independent_of_lamb_range [OF h1 h2])
  then show ?thesis
    by (simp add: observe_def SPECTRE_init_def clean_loop.simps eval_defs str_int_1400)
qed

section \<open>The program on the example root\<close>

text \<open>
  When the first of two descriptors is removed, the loop ends without reading the second,
  which stays in the index whatever its signal is.
\<close>

lemma clean_loop_skips_successor:
  assumes "combined_spectrum self a w = (Inr s, w')"
    and "mean_below s (clean_threshold self)"
  shows "clean_loop self 0 [a, b] w = (Inr [b], w')"
proof -
  have "clean_loop self 0 [a, b] w = clean_loop self (Suc 0) [b] w'"
    using assms by (simp add: clean_loop.simps [of self 0])
  then show ?thesis by (simp add: clean_loop.simps [of self "Suc 0"])
qed

text \<open>
  Claim C1, on the example root with \<open>clean_threshold = 0.15\<close>, no augmentation and no
  cache. The candidates are \<open>data/A\<close> and \<open>data/B\<close>, both of mean signal 0.1. The loop
  removes \<open>data/A\<close> at position 0; the list then has one element and the iterator, at
  position 1, stops. \<open>data/B\<close> is never examined and stays in the index, below the
  threshold.
\<close>

theorem cleaning_keeps_weak_descriptor:
  "case SPECTRE_init ''data'' 1400 False None (Finite (15 / 100)) (450, 690) False False
          ex_world of
     (Inl e, w) \<Rightarrow> False
   | (Inr self, w) \<Rightarrow>
       meas_list self = [(''data/B'', None)] \<and> clean_threshold self = Finite (15 / 100) \<and>
       mean_signal self (''data/B'', None) w = Some (Finite (1 / 10))"
  by (simp add: SPECTRE_init_def clean_loop.simps mean_signal_def eval_defs str_int_1400)

text \<open>
  On a finalized object the result of \<open>send\<close> is the same for every \<open>_ids\<close> of the
  right length: only the length of the permutation is used.
\<close>

lemma send_ignores_ids:
  assumes "ids self = Some p" and "length p = length (meas_list self)"
    and "length q = length p"
  shows "fst (send (self\<lparr>ids := Some q\<rparr>) w) = fst (send self w)"
proof -
  have q: "ids (self\<lparr>ids := Some q\<rparr>) = Some q"
    "length q = length (meas_list (self\<lparr>ids := Some q\<rparr>))"
    using assms by simp_all
  have f: "meas_list (self\<lparr>ids := Some q\<rparr>) = meas_list self"
    "int_time (self\<lparr>ids := Some q\<rparr>) = int_time self"
    "dark_meas (self\<lparr>ids := Some q\<rparr>) = dark_meas self"
    "white_meas (self\<lparr>ids := Some q\<rparr>) = white_meas self"
    by simp_all
  have r: "read_meas_file (self\<lparr>ids := Some q\<rparr>) = read_meas_file self"
    unfolding read_meas_file_def read_meas_file_singular_def normalize_measurement_def f
    by (rule refl)
  show ?thesis
    unfolding send_finalized [OF q] send_finalized [OF assms(1,2)] r
    by (simp split: prod.splits sum.splits)
qed

text \<open>
  Claim C2, on the example root with shuffling on, where the shuffle of \<open>[0, 1]\<close> comes
  out as \<open>[1, 0]\<close>. With the cursor at 0 the permutation points at position 1 of the
  index, \<open>data/B\<close>; \<open>send\<close> materializes position 0, \<open>data/A\<close>.
\<close>

theorem send_ignores_permutation:
  "case SPECTRE_init ''data'' 1400 True None (Finite 0) (450, 690) False False ex_world of
     (Inl e, w) \<Rightarrow> False
   | (Inr self, w) \<Rightarrow>
       meas_list self = [(''data/A'', None), (''data/B'', None)] \<and>
       ids self = Some [1, 0] \<and> self_i self = 0 \<and>
       fst (send self w) = Inr (fl [1 / 4, 1 / 2], fl [1 / 10, 1 / 10]) \<and>
       fst (read_meas_file self 0 w) = Inr (fl [1 / 4, 1 / 2], fl [1 / 10, 1 / 10]) \<and>
       fst (read_meas_file self 1 w) = Inr (fl [1 / 2, 3 / 4], fl [1 / 10, 1 / 10])"
  by (simp add: SPECTRE_init_def clean_loop.simps eval_defs str_int_1400)

text \<open>\<open>_read_reference\<close> depends on nothing of the object but \<open>root_dir\<close>.\<close>

lemma read_reference_root_only:
  assumes "root_dir a = root_dir b"
  shows "read_reference a = read_reference b"
  unfolding read_reference_def assms by (rule refl)

text \<open>
  Claim C3, on the example root with \<open>int_time = 800\<close> and \<open>lamb_range = (600, 700)\<close>. The
  references the object holds are the frames of \<open>1400_frame.npy\<close> and the spectra over
  the range from 450 to 690; at the configured values the reader returns other arrays.
\<close>

theorem read_reference_uses_defaults:
  "(case SPECTRE_init ''data'' 800 False None (Finite 0) (600, 700) False False ex_world of
      (Inl e, w) \<Rightarrow> False
    | (Inr self, w) \<Rightarrow>
        int_time self = 800 \<and> lamb_range self = (600, 700) \<and>
        dark_meas self = (fl [1, 1], fl [1, 1]) \<and>
        white_meas self = (fl [5, 5], fl [11, 11]) \<and>
        take 4 (read_log w) =
          [''data/Dark/1400_frame.npy'', ''data/Dark/spectrum.csv'',
           ''data/White/1400_frame.npy'', ''data/White/spectrum.csv''])
   \<and> fst (read_frame ''data/Dark'' 800 ex_world) = Inr (fl [2, 2])
   \<and> fst (read_spectrum ''data/Dark'' (600, 700) ex_world) = Inr (fl [1])
   \<and> fst (read_frame ''data/White'' 800 ex_world) = Inr (fl [4, 4])
   \<and> fst (read_spectrum ''data/White'' (600, 700) ex_world) = Inr (fl [11])"
  by (simp add: SPECTRE_init_def clean_loop.simps eval_defs str_int_1400 str_int_800)

end
